theory Spec2Isabelle
  imports Main
begin

section \<open>Data model\<close>

text \<open>
  The Prisma tables the member handlers read and write. The flag columns of
  \<open>network_members\<close> are declared \<open>Boolean?\<close> with \<open>@default(false)\<close>, so a flag is
  \<open>true\<close>, \<open>false\<close> or \<open>null\<close>: a \<open>bool option\<close>. The pair \<open>(id, nwid)\<close> is
  \<open>@@unique\<close>. Columns no handler below looks at (\<open>nodeid\<close>, \<open>lastSeen\<close>,
  \<open>physicalAddress\<close>, \<open>online\<close>, \<open>creationTime\<close>, \<open>notations\<close>) are left out.
\<close>

record member_row =
  m_id :: string
  m_nwid :: string
  m_authorized :: "bool option"
  m_deleted :: "bool option"
  m_permanentlyDeleted :: "bool option"
  m_name :: "string option"
  m_description :: "string option"
  m_address :: "string option"

record network_row =
  nw_nwid :: string
  nw_name :: "string option"
  nw_authorId :: "string option"
  nw_organizationId :: "string option"

record user_options =
  addMemberIdAsName :: "bool option"
  renameNodeGlobally :: "bool option"

text \<open>A member as the ZeroTier controller reports it (fields the handlers pass through).\<close>

record ctrl_member =
  cm_id :: string
  cm_authorized :: bool
  cm_ipAssignments :: "string list"

text \<open>The \<open>updateParams\<close> object of \<open>Update\<close>: every field is optional.\<close>

record update_params =
  up_name :: "string option"
  up_description :: "string option"
  up_activeBridge :: "bool option"
  up_noAutoAssignIps :: "bool option"
  up_ipAssignments :: "string list option"
  up_authorized :: "bool option"
  up_capabilities :: "int list option"
  up_tags :: "(int \<times> int) list option"

definition no_params :: update_params where
  "no_params = \<lparr>up_name = None, up_description = None, up_activeBridge = None,
     up_noAutoAssignIps = None, up_ipAssignments = None, up_authorized = None,
     up_capabilities = None, up_tags = None\<rparr>"

text \<open>What \<open>ztController.member_update\<close> is handed as \<open>updateParams\<close>.\<close>

datatype ctrl_params =
    Payload update_params
  | Config update_params
  | Hidden bool

datatype hook_type = NETWORK_JOIN | MEMBER_CONFIG_CHANGED | MEMBER_DELETED

datatype admin_event = NODE_ADDED | NODE_DELETED | NODE_PERMANENTLY_DELETED

text \<open>
  The handlers' effects outside the returned value, in the order the handler reaches
  them: calls to the controller, writes to \<open>network_members\<close> (keyed by network and
  member identifier, or a bulk write on one network), webhooks and admin e-mails.
  A call is recorded when it is made, whether or not it then fails.
\<close>

datatype event =
    CtrlUpdate string string bool ctrl_params
  | CtrlDelete string string bool
  | DbMember string string
  | DbMembersOf string
  | Webhook hook_type
  | AdminNotification admin_event

datatype activity =
    ActCreated string string
  | ActUpdated string string update_params
  | ActUpdatedDatabaseOnly string string "bool option" "string option"
  | ActStashed string string
  | ActDeleted string string
  | ActBulkDeleted nat string

record world =
  members :: "member_row list"
  networks :: "network_row list"
  userOptions :: "string \<Rightarrow> user_options option"
  organizationSettings :: "string \<Rightarrow> bool option option"
  userOrganizationRole :: "(string \<times> string) list"
  organizationUsers :: "(string \<times> string) list"
  activityLog :: "(activity \<times> string \<times> string option) list"
  trace :: "event list"

text \<open>
  The collaborators whose code is outside the member and network routers, as
  parameters: the session, \<open>checkUserOrganizationRole\<close> (utils/role), the controller
  client (utils/ztApi), \<open>isValidIP\<close> (utils/ipUtils), \<open>sendWebhook\<close> (utils/webhook),
  \<open>sendOrganizationAdminNotification\<close> (utils/organizationNotifications) and
  \<open>syncMemberPeersAndStatus\<close> (services/memberService). A controller call that
  rejects answers \<open>None\<close>; a notification that rejects answers \<open>False\<close>.
\<close>

record env =
  session_user :: string
  role_ok :: "string \<Rightarrow> bool"
  member_update_reply :: "string \<Rightarrow> string \<Rightarrow> bool \<Rightarrow> ctrl_params \<Rightarrow> ctrl_member option"
  member_delete_ok :: "string \<Rightarrow> string \<Rightarrow> bool \<Rightarrow> bool"
  isValidIP :: "string \<Rightarrow> bool"
  webhook_ok :: "hook_type \<Rightarrow> bool"
  notify_ok :: "admin_event \<Rightarrow> bool"
  get_controller_networks :: "string list"
  local_network_detail :: "string \<Rightarrow> ctrl_member list option"
  syncMemberPeersAndStatus :: "string \<Rightarrow> ctrl_member list \<Rightarrow> world \<Rightarrow> ctrl_member list option \<times> world"

datatype trpc_code = BAD_REQUEST | FORBIDDEN | UNAUTHORIZED | NOT_FOUND

datatype error =
    TRPCError trpc_code
  | Thrown string
  | RoleRejected
  | ControllerRejected
  | NotificationFailed
  | RecordNotFound
  | InvalidInput

section \<open>JavaScript truthiness and handler plumbing\<close>

definition truthy :: "bool option \<Rightarrow> bool" where
  "truthy b = (b = Some True)"

definition truthy_str :: "string option \<Rightarrow> bool" where
  "truthy_str s = (case s of None \<Rightarrow> False | Some x \<Rightarrow> x \<noteq> [])"

text \<open>
  An async handler: it runs on the world and leaves either an error (the rejected
  promise) or a value, together with the world as it is by then. Nothing is rolled back
  when a handler rejects.
\<close>

type_synonym 'a handler = "world \<Rightarrow> (error + 'a) \<times> world"

definition ret :: "'a \<Rightarrow> 'a handler" where
  "ret a = (\<lambda>w. (Inr a, w))"

definition throw :: "error \<Rightarrow> 'a handler" where
  "throw e = (\<lambda>w. (Inl e, w))"

definition await :: "'a handler \<Rightarrow> ('a \<Rightarrow> 'b handler) \<Rightarrow> 'b handler" where
  "await m f = (\<lambda>w. case m w of (Inl e, w') \<Rightarrow> (Inl e, w') | (Inr a, w') \<Rightarrow> f a w')"

definition try_catch :: "'a handler \<Rightarrow> (error \<Rightarrow> 'a handler) \<Rightarrow> 'a handler" where
  "try_catch m h = (\<lambda>w. case m w of (Inl e, w') \<Rightarrow> h e w' | (Inr a, w') \<Rightarrow> (Inr a, w'))"

definition emit :: "event \<Rightarrow> world \<Rightarrow> world" where
  "emit ev w = w\<lparr>trace := trace w @ [ev]\<rparr>"

text \<open>
  \<open>throwError\<close> (server/helpers/errorHandler) is not among the sources. It is taken to
  raise an error carrying its message, as its name says and as the guards of
  \<open>getNetworkById\<close> use it (\<open>return throwError("Network not found!")\<close>).
\<close>

definition throwError :: "string \<Rightarrow> 'a handler" where
  "throwError msg = throw (Thrown msg)"

fun message :: "error \<Rightarrow> string" where
  "message (Thrown msg) = msg"
| "message RoleRejected = ''role''"
| "message ControllerRejected = ''controller''"
| "message NotificationFailed = ''notification''"
| "message RecordNotFound = ''record not found''"
| "message InvalidInput = ''invalid input''"
| "message (TRPCError c) = ''trpc''"

definition checkUserOrganizationRole :: "env \<Rightarrow> string \<Rightarrow> unit handler" where
  "checkUserOrganizationRole env org =
     (if role_ok env org then ret () else throw RoleRejected)"

definition activityLog_create :: "env \<Rightarrow> activity \<Rightarrow> string option \<Rightarrow> unit handler" where
  "activityLog_create env a org = (\<lambda>w.
     (Inr (), w\<lparr>activityLog := activityLog w @
        [(a, session_user env, if truthy_str org then org else None)]\<rparr>))"

definition member_update :: "env \<Rightarrow> string \<Rightarrow> string \<Rightarrow> bool \<Rightarrow> ctrl_params \<Rightarrow> ctrl_member handler" where
  "member_update env nwid memberId central ps = (\<lambda>w.
     (case member_update_reply env nwid memberId central ps of
        None \<Rightarrow> Inl ControllerRejected
      | Some m \<Rightarrow> Inr m,
      emit (CtrlUpdate nwid memberId central ps) w))"

definition member_delete :: "env \<Rightarrow> string \<Rightarrow> string \<Rightarrow> bool \<Rightarrow> unit handler" where
  "member_delete env nwid memberId central = (\<lambda>w.
     (if member_delete_ok env nwid memberId central then Inr () else Inl ControllerRejected,
      emit (CtrlDelete nwid memberId central) w))"

definition sendWebhook :: "env \<Rightarrow> hook_type \<Rightarrow> unit handler" where
  "sendWebhook env h = (\<lambda>w.
     (if webhook_ok env h then Inr () else Inl NotificationFailed, emit (Webhook h) w))"

definition sendOrganizationAdminNotification :: "env \<Rightarrow> admin_event \<Rightarrow> unit handler" where
  "sendOrganizationAdminNotification env ev = (\<lambda>w.
     (if notify_ok env ev then Inr () else Inl NotificationFailed,
      emit (AdminNotification ev) w))"

section \<open>Queries and writes on \<open>network_members\<close>\<close>

definition is_member :: "string \<Rightarrow> string \<Rightarrow> member_row \<Rightarrow> bool" where
  "is_member i n r = (m_id r = i \<and> m_nwid r = n)"

definition find_member :: "string \<Rightarrow> string \<Rightarrow> world \<Rightarrow> member_row option" where
  "find_member i n w = find (is_member i n) (members w)"

definition network_of :: "world \<Rightarrow> string \<Rightarrow> network_row option" where
  "network_of w n = find (\<lambda>x. nw_nwid x = n) (networks w)"

text \<open>\<open>updateMany\<close>: every row the filter selects gets the data; no row is not an error.\<close>

definition updateMany :: "(member_row \<Rightarrow> bool) \<Rightarrow> (member_row \<Rightarrow> member_row) \<Rightarrow> world \<Rightarrow> world" where
  "updateMany sel f w = w\<lparr>members := map (\<lambda>r. if sel r then f r else r) (members w)\<rparr>"

text \<open>\<open>update\<close> on the unique key \<open>id_nwid\<close>: it rejects when the row is missing.\<close>

definition update_member :: "string \<Rightarrow> string \<Rightarrow> (member_row \<Rightarrow> member_row) \<Rightarrow> member_row handler" where
  "update_member i n f = (\<lambda>w.
     (case find_member i n w of
        None \<Rightarrow> (Inl RecordNotFound, w)
      | Some r \<Rightarrow> (Inr (f r), emit (DbMember n i) (updateMany (is_member i n) f w))))"

text \<open>\<open>delete\<close> on the unique key: it rejects when the row is missing.\<close>

definition delete_row :: "string \<Rightarrow> string \<Rightarrow> unit handler" where
  "delete_row i n = (\<lambda>w.
     (case find_member i n w of
        None \<Rightarrow> (Inl RecordNotFound, w)
      | Some r \<Rightarrow> (Inr (), emit (DbMember n i)
          (w\<lparr>members := filter (\<lambda>r. \<not> is_member i n r) (members w)\<rparr>))))"

text \<open>
  \<open>create\<close> with \<open>nwid_ref: { connect: { nwid } }\<close>: the network must exist; the flags
  take their column defaults.
\<close>

definition create_row :: "string \<Rightarrow> string \<Rightarrow> string option \<Rightarrow> unit handler" where
  "create_row i n name = (\<lambda>w.
     (case network_of w n of
        None \<Rightarrow> (Inl RecordNotFound, w)
      | Some _ \<Rightarrow> (Inr (), emit (DbMember n i)
          (w\<lparr>members := members w @
             [\<lparr>m_id = i, m_nwid = n, m_authorized = Some False, m_deleted = Some False,
               m_permanentlyDeleted = Some False, m_name = name, m_description = None,
               m_address = Some i\<rparr>]\<rparr>))))"

section \<open>networkRouter.getUserNetworks\<close>

record member_counts =
  mc_authorized :: nat
  mc_total :: nat
  mc_display :: string

text \<open>A JavaScript number that is a count, as a template literal prints it.\<close>

definition digit :: "nat \<Rightarrow> char" where
  "digit d = ''0123456789'' ! (d mod 10)"

function string_of_nat :: "nat \<Rightarrow> string" where
  "string_of_nat n =
     (if n < 10 then [digit n] else string_of_nat (n div 10) @ [digit (n mod 10)])"
  by pat_completeness auto
termination
  by (relation "measure id") auto

declare string_of_nat.simps [simp del]

definition networkMembers :: "world \<Rightarrow> network_row \<Rightarrow> member_row list" where
  "networkMembers w n = filter (\<lambda>r. m_nwid r = nw_nwid n) (members w)"

definition memberCounts :: "member_row list \<Rightarrow> member_counts" where
  "memberCounts ms =
     (let authorizedCount = length (filter (\<lambda>m. truthy (m_authorized m) \<and> \<not> truthy (m_deleted m)) ms);
          totalCount = length (filter (\<lambda>m. \<not> truthy (m_deleted m)) ms)
      in \<lparr>mc_authorized = authorizedCount, mc_total = totalCount,
          mc_display = string_of_nat authorizedCount @ '' ('' @ string_of_nat totalCount @ '')''\<rparr>)"

datatype user_networks =
    CentralNetworks "string list"
  | LocalNetworks "(network_row \<times> member_row list \<times> member_counts) list"

definition getUserNetworks :: "env \<Rightarrow> bool \<Rightarrow> world \<Rightarrow> user_networks" where
  "getUserNetworks env central w =
     (if central then CentralNetworks (get_controller_networks env)
      else LocalNetworks
        (map (\<lambda>network. (network, networkMembers w network, memberCounts (networkMembers w network)))
           (filter (\<lambda>n. nw_authorId n = Some (session_user env)) (networks w))))"

section \<open>networkMemberRouter\<close>

definition when_org :: "string option \<Rightarrow> (string \<Rightarrow> unit handler) \<Rightarrow> unit handler" where
  "when_org org f = (case org of None \<Rightarrow> ret () | Some x \<Rightarrow> if x = [] then ret () else f x)"

definition in_personal_scope :: "env \<Rightarrow> world \<Rightarrow> string \<Rightarrow> bool" where
  "in_personal_scope env w n =
     (case network_of w n of
        None \<Rightarrow> False
      | Some x \<Rightarrow> nw_authorId x = Some (session_user env) \<and> nw_organizationId x = None)"

definition in_org_scope :: "string \<Rightarrow> world \<Rightarrow> string \<Rightarrow> bool" where
  "in_org_scope org w n =
     (case network_of w n of None \<Rightarrow> False | Some x \<Rightarrow> nw_organizationId x = Some org)"

definition user_renames_globally :: "env \<Rightarrow> world \<Rightarrow> bool" where
  "user_renames_globally env w =
     (case userOptions w (session_user env) of
        None \<Rightarrow> False
      | Some opts \<Rightarrow> truthy (renameNodeGlobally opts))"

definition user_adds_id_as_name :: "env \<Rightarrow> world \<Rightarrow> bool" where
  "user_adds_id_as_name env w =
     (case userOptions w (session_user env) of
        None \<Rightarrow> False
      | Some opts \<Rightarrow> truthy (addMemberIdAsName opts))"

definition org_renames_globally :: "string \<Rightarrow> world \<Rightarrow> bool" where
  "org_renames_globally org w =
     (case organizationSettings w org of None \<Rightarrow> False | Some b \<Rightarrow> truthy b)"

subsection \<open>create\<close>

definition is_hex_char :: "char \<Rightarrow> bool" where
  "is_hex_char c = (c \<in> set ''0123456789abcdefABCDEF'')"

definition isValidZeroTierNetworkId :: "string \<Rightarrow> bool" where
  "isValidZeroTierNetworkId i = (length i = 10 \<and> list_all is_hex_char i)"

text \<open>
  The name another network of the same scope already gives the member: the two
  \<open>findFirst\<close> queries of \<open>create\<close>, on personal networks or on the organization's
  (the latter only when the organization renames globally). \<open>other\<close> is the
  \<open>nwid: { not: input.nwid }\<close> filter, which only the re-add path applies.
\<close>

definition existing_name :: "env \<Rightarrow> string option \<Rightarrow> string \<Rightarrow> (string \<Rightarrow> bool) \<Rightarrow> world \<Rightarrow> string option" where
  "existing_name env org i other w =
     (let named = (\<lambda>scope. find (\<lambda>r. m_id r = i \<and> m_deleted r = Some False \<and> scope (m_nwid r) \<and>
                      other (m_nwid r) \<and> m_name r \<noteq> None) (members w));
          name_of = (\<lambda>found. case found of
                       None \<Rightarrow> None
                     | Some r \<Rightarrow> if truthy_str (m_name r) then m_name r else None)
      in case org of
           None \<Rightarrow> name_of (named (in_personal_scope env w))
         | Some x \<Rightarrow>
             if x = [] then name_of (named (in_personal_scope env w))
             else if org_renames_globally x w then name_of (named (in_org_scope x w))
             else None)"

definition notify_admins :: "env \<Rightarrow> string option \<Rightarrow> admin_event \<Rightarrow> unit handler" where
  "notify_admins env org ev =
     when_org org (\<lambda>x. try_catch (sendOrganizationAdminNotification env ev) (\<lambda>e. ret ()))"

datatype create_result =
    CentralMember ctrl_member
  | UpdatedMember member_row
  | NoResult

definition readd_name :: "env \<Rightarrow> string option \<Rightarrow> string \<Rightarrow> string \<Rightarrow> member_row \<Rightarrow> world \<Rightarrow> string option" where
  "readd_name env org i nwid member w =
     (if user_renames_globally env w then
        (case existing_name env org i (\<lambda>n. n \<noteq> nwid) w of
           Some n \<Rightarrow> Some n
         | None \<Rightarrow> m_name member)
      else if user_adds_id_as_name env w then Some i
      else m_name member)"

definition new_name :: "env \<Rightarrow> string option \<Rightarrow> string \<Rightarrow> world \<Rightarrow> string option" where
  "new_name env org i w =
     (let memberName = (if user_renames_globally env w
                        then existing_name env org i (\<lambda>n. True) w else None)
      in if \<not> truthy_str memberName \<and> user_adds_id_as_name env w then Some i else memberName)"

definition create :: "env \<Rightarrow> string option \<Rightarrow> string \<Rightarrow> string \<Rightarrow> bool \<Rightarrow> create_result handler" where
  "create env organizationId i nwid central =
     (if \<not> isValidZeroTierNetworkId i then throw InvalidInput else
      await (when_org organizationId (checkUserOrganizationRole env)) (\<lambda>_.
      await (activityLog_create env (ActCreated i nwid) organizationId) (\<lambda>_.
      if central then
        await (member_update env nwid i central (Hidden False)) (\<lambda>r. ret (CentralMember r))
      else (\<lambda>w.
        (case find_member i nwid w of
           Some member \<Rightarrow>
             await (update_member i nwid (\<lambda>r. r\<lparr>m_deleted := Some False,
                       m_permanentlyDeleted := Some False,
                       m_name := readd_name env organizationId i nwid member w\<rparr>)) (\<lambda>updatedMember.
             await (notify_admins env organizationId NODE_ADDED) (\<lambda>_.
             ret (UpdatedMember updatedMember)))
         | None \<Rightarrow>
             await (try_catch (sendWebhook env NETWORK_JOIN) (\<lambda>e. throwError (message e))) (\<lambda>_.
             await (\<lambda>w'. create_row i nwid (new_name env organizationId i w') w') (\<lambda>_.
             await (notify_admins env organizationId NODE_ADDED) (\<lambda>_.
             ret NoResult)))) w))))"

subsection \<open>Update\<close>

definition other_networks :: "(string \<Rightarrow> bool) \<Rightarrow> string \<Rightarrow> string \<Rightarrow> world \<Rightarrow> string list" where
  "other_networks scope memberId nwid w =
     map m_nwid (filter (\<lambda>r. m_id r = memberId \<and> m_deleted r = Some False \<and>
                             m_nwid r \<noteq> nwid \<and> scope (m_nwid r)) (members w))"

text \<open>
  The loop over \<open>networksWithMember\<close>: a controller update with the whole
  \<open>updateParams\<close>, then \<open>updateMany\<close> on the member's non-stashed row of that network.
  A rejected controller call ends the loop and the handler.
\<close>

fun rename_in :: "env \<Rightarrow> string \<Rightarrow> update_params \<Rightarrow> (member_row \<Rightarrow> member_row) \<Rightarrow> string list \<Rightarrow> unit handler" where
  "rename_in env memberId ups f [] = ret ()"
| "rename_in env memberId ups f (networkId # rest) =
     await (member_update env networkId memberId False (Payload ups)) (\<lambda>_.
     await (\<lambda>w. (Inr (), emit (DbMember networkId memberId)
              (updateMany (\<lambda>r. is_member memberId networkId r \<and> m_deleted r = Some False) f w))) (\<lambda>_.
     rename_in env memberId ups f rest))"

definition set_name :: "update_params \<Rightarrow> member_row \<Rightarrow> member_row" where
  "set_name ups r = r\<lparr>m_name := up_name ups\<rparr>"

definition set_name_description :: "update_params \<Rightarrow> member_row \<Rightarrow> member_row" where
  "set_name_description ups r =
     (case up_description ups of
        None \<Rightarrow> r\<lparr>m_name := up_name ups\<rparr>
      | Some d \<Rightarrow> r\<lparr>m_name := up_name ups, m_description := Some d\<rparr>)"

definition upsert_organizationSettings :: "string \<Rightarrow> world \<Rightarrow> world" where
  "upsert_organizationSettings org w =
     (case organizationSettings w org of
        Some _ \<Rightarrow> w
      | None \<Rightarrow> w\<lparr>organizationSettings := (organizationSettings w)(org := Some (Some False))\<rparr>)"

definition rename_globally :: "env \<Rightarrow> string \<Rightarrow> string \<Rightarrow> string option \<Rightarrow> update_params \<Rightarrow> unit handler" where
  "rename_globally env nwid memberId organizationId ups =
     (if \<not> truthy_str (up_name ups) then ret ()
      else (\<lambda>w.
        if user_renames_globally env w \<and> \<not> truthy_str organizationId then
          rename_in env memberId ups (set_name_description ups)
            (other_networks (in_personal_scope env w) memberId nwid w) w
        else
          (case organizationId of
             None \<Rightarrow> ret () w
           | Some org \<Rightarrow>
               if org = [] then ret () w
               else
                 (let w1 = upsert_organizationSettings org w in
                  if org_renames_globally org w1 then
                    rename_in env memberId ups (set_name ups)
                      (other_networks (in_org_scope org w1) memberId nwid w1) w1
                  else ret () w1))))"

definition invalidIPs :: "env \<Rightarrow> update_params \<Rightarrow> string list" where
  "invalidIPs env ups =
     (case up_ipAssignments ups of
        None \<Rightarrow> []
      | Some ips \<Rightarrow> filter (\<lambda>ip. \<not> isValidIP env ip) ips)"

definition databaseUpdateData :: "update_params \<Rightarrow> member_row \<Rightarrow> member_row" where
  "databaseUpdateData ups r =
     r\<lparr>m_name := (case up_name ups of None \<Rightarrow> m_name r | Some n \<Rightarrow> Some n),
       m_authorized := (case up_authorized ups of None \<Rightarrow> m_authorized r | Some a \<Rightarrow> Some a),
       m_description := (case up_description ups of None \<Rightarrow> m_description r | Some d \<Rightarrow> Some d)\<rparr>"

definition has_database_fields :: "update_params \<Rightarrow> bool" where
  "has_database_fields ups =
     (up_name ups \<noteq> None \<or> up_authorized ups \<noteq> None \<or> up_description ups \<noteq> None)"

definition update_database :: "string \<Rightarrow> string \<Rightarrow> update_params \<Rightarrow> unit handler" where
  "update_database nwid memberId ups = (\<lambda>w.
     (case find_member memberId nwid w of
        None \<Rightarrow> ret () w
      | Some dbMember \<Rightarrow>
          if has_database_fields ups
          then await (update_member memberId nwid (databaseUpdateData ups)) (\<lambda>_. ret ()) w
          else ret () w))"

text \<open>
  The handler from \<open>// Prepare payload\<close> on: validation of \<open>ipAssignments\<close>, the
  controller update of the edited network, the database update, webhook and admin
  notification.
\<close>

definition update_edited_network :: "env \<Rightarrow> string \<Rightarrow> string \<Rightarrow> bool \<Rightarrow> string option \<Rightarrow> update_params \<Rightarrow> ctrl_member handler" where
  "update_edited_network env nwid memberId central organizationId updateParams =
     (if invalidIPs env updateParams \<noteq> [] then throw (TRPCError BAD_REQUEST)
      else
        await (try_catch
                 (member_update env nwid memberId central
                    (if central then Config updateParams else Payload updateParams))
                 (\<lambda>e. throw (TRPCError FORBIDDEN))) (\<lambda>updatedMember.
        await (if central then ret () else update_database nwid memberId updateParams) (\<lambda>_.
        await (try_catch (sendWebhook env MEMBER_CONFIG_CHANGED) (\<lambda>e. throwError (message e))) (\<lambda>_.
        await (case up_authorized updateParams of
                 None \<Rightarrow> ret ()
               | Some a \<Rightarrow> if a then ret () else notify_admins env organizationId NODE_DELETED) (\<lambda>_.
        ret updatedMember)))))"

definition Update :: "env \<Rightarrow> string \<Rightarrow> string \<Rightarrow> bool \<Rightarrow> string option \<Rightarrow> update_params \<Rightarrow> ctrl_member handler" where
  "Update env nwid memberId central organizationId updateParams =
     await (when_org organizationId (checkUserOrganizationRole env)) (\<lambda>_.
     await (activityLog_create env (ActUpdated memberId nwid updateParams) organizationId) (\<lambda>_.
     await (rename_globally env nwid memberId organizationId updateParams) (\<lambda>_.
     update_edited_network env nwid memberId central organizationId updateParams)))"

subsection \<open>UpdateDatabaseOnly\<close>

definition UpdateDatabaseOnly :: "env \<Rightarrow> string \<Rightarrow> string \<Rightarrow> string option \<Rightarrow> bool option \<Rightarrow> string option \<Rightarrow> member_row handler" where
  "UpdateDatabaseOnly env nwid i organizationId deleted description =
     await (when_org organizationId (checkUserOrganizationRole env)) (\<lambda>_.
     await (activityLog_create env (ActUpdatedDatabaseOnly i nwid deleted description) organizationId) (\<lambda>_.
     await (\<lambda>w. case network_of w nwid of
                 None \<Rightarrow> (Inl RecordNotFound, w)
               | Some _ \<Rightarrow> update_member i nwid (\<lambda>r.
                   r\<lparr>m_deleted := (case deleted of None \<Rightarrow> m_deleted r | Some d \<Rightarrow> Some d),
                     m_description := (case description of None \<Rightarrow> m_description r | Some d \<Rightarrow> Some d)\<rparr>) w) (\<lambda>member.
     await (try_catch (sendWebhook env MEMBER_CONFIG_CHANGED) (\<lambda>e. throwError (message e))) (\<lambda>_.
     ret member))))"

subsection \<open>stash\<close>

definition deauthorize :: update_params where
  "deauthorize = no_params\<lparr>up_authorized := Some False, up_ipAssignments := Some [],
     up_tags := Some [], up_capabilities := Some []\<rparr>"

text \<open>
  \<open>prisma.network.update\<close> with a nested \<open>updateMany\<close> setting \<open>deleted: true\<close>: it
  rejects when the network row is missing.
\<close>

definition mark_deleted :: "string \<Rightarrow> string \<Rightarrow> unit handler" where
  "mark_deleted nwid i = (\<lambda>w.
     (case network_of w nwid of
        None \<Rightarrow> (Inl RecordNotFound, w)
      | Some _ \<Rightarrow> (Inr (), emit (DbMember nwid i)
          (updateMany (is_member i nwid) (\<lambda>r. r\<lparr>m_deleted := Some True\<rparr>) w))))"

definition stash :: "env \<Rightarrow> string option \<Rightarrow> string \<Rightarrow> string \<Rightarrow> ctrl_member option handler" where
  "stash env organizationId nwid i =
     await (when_org organizationId (checkUserOrganizationRole env)) (\<lambda>_.
     await (activityLog_create env (ActStashed i nwid) organizationId) (\<lambda>_.
     await (try_catch
              (await (Update env nwid i False organizationId deauthorize) (\<lambda>r. ret (Some r)))
              (\<lambda>error. ret None)) (\<lambda>response.
     await (try_catch (mark_deleted nwid i) (\<lambda>err. ret ())) (\<lambda>_.
     await (try_catch (sendWebhook env MEMBER_CONFIG_CHANGED) (\<lambda>e. throwError (message e))) (\<lambda>_.
     ret response)))))"

subsection \<open>delete\<close>

text \<open>The handler answers \<open>{ deleted: true }\<close> (\<open>Some True\<close>) or nothing (\<open>None\<close>).\<close>

definition delete :: "env \<Rightarrow> string option \<Rightarrow> bool \<Rightarrow> string \<Rightarrow> string \<Rightarrow> bool option handler" where
  "delete env organizationId central nwid i =
     await (when_org organizationId (checkUserOrganizationRole env)) (\<lambda>_.
     await (activityLog_create env (ActDeleted i nwid) organizationId) (\<lambda>_. (\<lambda>w.
       (let existingMember = find_member i nwid w;
            stashed = (case existingMember of None \<Rightarrow> False | Some r \<Rightarrow> truthy (m_deleted r))
        in await (if \<not> stashed then member_delete env nwid i central else ret ()) (\<lambda>_.
           if central then ret (Some True)
           else if stashed then
             await (update_member i nwid (\<lambda>r. r\<lparr>m_permanentlyDeleted := Some True\<rparr>)) (\<lambda>_.
             await (notify_admins env organizationId NODE_PERMANENTLY_DELETED) (\<lambda>_.
             ret (Some True)))
           else
             await (delete_row i nwid) (\<lambda>_.
             await (notify_admins env organizationId NODE_PERMANENTLY_DELETED) (\<lambda>_.
             await (try_catch (sendWebhook env MEMBER_DELETED) (\<lambda>e. throwError (message e))) (\<lambda>_.
             ret None)))) w))))"

subsection \<open>bulkDeleteStashed\<close>

definition accessible_network :: "env \<Rightarrow> string \<Rightarrow> string option \<Rightarrow> network_row option handler" where
  "accessible_network env nwid organizationId = (\<lambda>w.
     (case organizationId of
        None \<Rightarrow> ret (find (\<lambda>n. nw_nwid n = nwid \<and> nw_authorId n = Some (session_user env)) (networks w)) w
      | Some org \<Rightarrow>
          if org = [] then
            ret (find (\<lambda>n. nw_nwid n = nwid \<and> nw_authorId n = Some (session_user env)) (networks w)) w
          else if (session_user env, org) \<notin> set (userOrganizationRole w) then
            throw (TRPCError UNAUTHORIZED) w
          else ret (find (\<lambda>n. nw_nwid n = nwid \<and> nw_organizationId n = Some org) (networks w)) w))"

text \<open>The handler answers \<open>deletedCount\<close> (the message only repeats it).\<close>

definition bulkDeleteStashed :: "env \<Rightarrow> string \<Rightarrow> string option \<Rightarrow> nat handler" where
  "bulkDeleteStashed env nwid organizationId =
     await (accessible_network env nwid organizationId) (\<lambda>network.
     if network = None then throw (TRPCError NOT_FOUND)
     else (\<lambda>w.
       (let membersToDelete = filter (\<lambda>r. m_nwid r = nwid \<and> m_deleted r = Some True) (members w)
        in if membersToDelete = [] then ret 0 w
           else
             (let memberIds = map m_id membersToDelete;
                  sel = (\<lambda>r. m_nwid r = nwid \<and> m_id r \<in> set memberIds \<and> m_deleted r = Some True);
                  count = length (filter sel (members w))
              in await (\<lambda>w. (Inr (), emit (DbMembersOf nwid)
                          (updateMany sel (\<lambda>r. r\<lparr>m_permanentlyDeleted := Some True\<rparr>) w))) (\<lambda>_.
                 await (activityLog_create env (ActBulkDeleted count nwid) organizationId) (\<lambda>_.
                 await (try_catch (sendWebhook env MEMBER_DELETED) (\<lambda>error. ret ())) (\<lambda>_.
                 ret count))) w))))"

section \<open>networkRouter.getNetworkById\<close>

text \<open>
  An entry of \<open>mergedMembersMap\<close>: the spread \<open>{...controllerMember, ...member}\<close> of a
  controller record under a database row (the row's fields win, its \<open>id\<close> among them),
  a database row alone, or a controller record alone.
\<close>

datatype merged_member =
    Merged ctrl_member member_row
  | DatabaseOnly member_row
  | ControllerOnly ctrl_member

fun merged_id :: "merged_member \<Rightarrow> string" where
  "merged_id (Merged c m) = m_id m"
| "merged_id (DatabaseOnly m) = m_id m"
| "merged_id (ControllerOnly c) = cm_id c"

text \<open>\<open>Map.prototype.set\<close>: a known key keeps its place, a new one goes last.\<close>

fun map_set :: "'k \<Rightarrow> 'v \<Rightarrow> ('k \<times> 'v) list \<Rightarrow> ('k \<times> 'v) list" where
  "map_set k v [] = [(k, v)]"
| "map_set k v (p # ps) = (if fst p = k then (k, v) # ps else p # map_set k v ps)"

definition add_database_member :: "ctrl_member list \<Rightarrow> (string \<times> merged_member) list \<Rightarrow> member_row \<Rightarrow> (string \<times> merged_member) list" where
  "add_database_member membersWithStatusAndPeers mergedMembersMap member =
     (case find (\<lambda>m. cm_id m = m_id member) membersWithStatusAndPeers of
        Some controllerMember \<Rightarrow>
          if \<not> truthy (m_deleted member)
          then map_set (m_id member) (Merged controllerMember member) mergedMembersMap
          else mergedMembersMap
      | None \<Rightarrow>
          if \<not> truthy (m_deleted member)
          then map_set (m_id member) (DatabaseOnly member) mergedMembersMap
          else mergedMembersMap)"

definition add_controller_member :: "member_row list \<Rightarrow> string list \<Rightarrow> (string \<times> merged_member) list \<Rightarrow> ctrl_member \<Rightarrow> (string \<times> merged_member) list" where
  "add_controller_member allDatabaseMembers permanentlyDeletedMemberIds mergedMembersMap member =
     (if \<not> list_ex (\<lambda>dbMember. m_id dbMember = cm_id member) allDatabaseMembers then
        (if cm_id member \<notin> set permanentlyDeletedMemberIds
         then map_set (cm_id member) (ControllerOnly member) mergedMembersMap
         else mergedMembersMap)
      else mergedMembersMap)"

definition allDatabaseMembers :: "string \<Rightarrow> world \<Rightarrow> member_row list" where
  "allDatabaseMembers nwid w = filter (\<lambda>r. m_nwid r = nwid) (members w)"

definition permanentlyDeletedMemberIds :: "string \<Rightarrow> world \<Rightarrow> string list" where
  "permanentlyDeletedMemberIds nwid w =
     map m_id (filter (\<lambda>r. m_nwid r = nwid \<and> m_permanentlyDeleted r = Some True) (members w))"

definition zombieMembers :: "string \<Rightarrow> world \<Rightarrow> member_row list" where
  "zombieMembers nwid w =
     filter (\<lambda>member. truthy (m_deleted member) \<and> \<not> truthy (m_permanentlyDeleted member))
       (allDatabaseMembers nwid w)"

definition mergedMembers :: "string \<Rightarrow> world \<Rightarrow> ctrl_member list \<Rightarrow> merged_member list" where
  "mergedMembers nwid w membersWithStatusAndPeers =
     (let fromDatabase = foldl (add_database_member membersWithStatusAndPeers) []
                           (allDatabaseMembers nwid w);
          mergedMembersMap = foldl (add_controller_member (allDatabaseMembers nwid w)
                                      (permanentlyDeletedMemberIds nwid w))
                               fromDatabase membersWithStatusAndPeers
      in map snd mergedMembersMap)"

datatype network_detail =
    CentralDetail
  | LocalDetail "merged_member list" "member_row list"

text \<open>
  The handler up to the member lists it answers with (\<open>members\<close>, \<open>zombieMembers\<close>).
  The central branch hands back the controller's own answer. The route comparison and
  the duplicate-route query that follow the merge touch no member row and are left out.
\<close>

definition getNetworkById :: "env \<Rightarrow> string \<Rightarrow> bool \<Rightarrow> network_detail handler" where
  "getNetworkById env nwid central =
     (if central then ret CentralDetail
      else (\<lambda>w.
        (case network_of w nwid of
           None \<Rightarrow> throwError ''Network not found!'' w
         | Some networkFromDatabase \<Rightarrow>
             (let isAuthor = (nw_authorId networkFromDatabase = Some (session_user env));
                  isMemberOfOrganization =
                    (case nw_organizationId networkFromDatabase of
                       None \<Rightarrow> False
                     | Some org \<Rightarrow> org \<noteq> [] \<and> (org, session_user env) \<in> set (organizationUsers w))
              in if \<not> isAuthor \<and> \<not> isMemberOfOrganization
                 then throwError ''You do not have access to this network!'' w
                 else
                   (case local_network_detail env nwid of
                      None \<Rightarrow> throwError ''controller'' w
                    | Some controllerMembers \<Rightarrow>
                        (case syncMemberPeersAndStatus env nwid controllerMembers w of
                           (synced, w1) \<Rightarrow>
                             (let membersWithStatusAndPeers =
                                    (case synced of None \<Rightarrow> [] | Some ms \<Rightarrow> ms)
                              in ret (LocalDetail (mergedMembers nwid w1 membersWithStatusAndPeers)
                                        (zombieMembers nwid w1)) w1)))))))"

section \<open>Well-formed tables\<close>

text \<open>The \<open>@@unique([id, nwid])\<close> constraint of \<open>network_members\<close>.\<close>

definition unique_members :: "world \<Rightarrow> bool" where
  "unique_members w = distinct (map (\<lambda>r. (m_id r, m_nwid r)) (members w))"

section \<open>Specification vocabulary\<close>

text \<open>The \<open>STASHED \<rightarrow> PERMANENTLY_DELETED\<close> transition on one row of network \<open>nwid\<close>.\<close>

definition mark_stashed :: "string \<Rightarrow> member_row \<Rightarrow> member_row" where
  "mark_stashed nwid r =
     (if m_nwid r = nwid \<and> m_deleted r = Some True
      then r\<lparr>m_permanentlyDeleted := Some True\<rparr> else r)"

text \<open>The organization check lets the caller through (or none is asked for).\<close>

definition org_allowed :: "env \<Rightarrow> string option \<Rightarrow> bool" where
  "org_allowed env org = (case org of None \<Rightarrow> True | Some x \<Rightarrow> x = [] \<or> role_ok env x)"

text \<open>What a run added to the trace.\<close>

definition new_events :: "world \<Rightarrow> world \<Rightarrow> event list" where
  "new_events w w' = drop (length (trace w)) (trace w')"

text \<open>
  From \<open>w\<close> to \<open>w'\<close> no row lost a set flag: every row of \<open>w'\<close> is the row of a pair
  \<open>(id, nwid)\<close> that \<open>w\<close> has, with \<open>deleted\<close> still \<open>true\<close> if it was and
  \<open>permanentlyDeleted\<close> still \<open>true\<close> if it was.
\<close>

definition flags_kept :: "world \<Rightarrow> world \<Rightarrow> bool" where
  "flags_kept w w' =
     list_all (\<lambda>r'. list_ex (\<lambda>r. m_id r = m_id r' \<and> m_nwid r = m_nwid r'
                  \<and> (m_deleted r = Some True \<longrightarrow> m_deleted r' = Some True)
                  \<and> (m_permanentlyDeleted r = Some True \<longrightarrow> m_permanentlyDeleted r' = Some True))
                (members w)) (members w')"

text \<open>The network an event is about, and whether that is a network other than \<open>nwid\<close>.\<close>

fun event_network :: "event \<Rightarrow> string option" where
  "event_network (CtrlUpdate n i c ps) = Some n"
| "event_network (CtrlDelete n i c) = Some n"
| "event_network (DbMember n i) = Some n"
| "event_network (DbMembersOf n) = Some n"
| "event_network (Webhook h) = None"
| "event_network (AdminNotification ev) = None"

definition elsewhere :: "string \<Rightarrow> event \<Rightarrow> bool" where
  "elsewhere nwid e = (case event_network e of None \<Rightarrow> False | Some n \<Rightarrow> n \<noteq> nwid)"

text \<open>
  The global-naming setting that governs an \<open>Update\<close> call, the ownership scope it
  fans out over, and the fields it writes there: the user's option, the user's personal
  networks and name with description for a personal call; the organization's setting,
  the organization's networks and the name alone for an organization call.
\<close>

definition renames_globally :: "env \<Rightarrow> string option \<Rightarrow> world \<Rightarrow> bool" where
  "renames_globally env org w =
     (case org of
        None \<Rightarrow> user_renames_globally env w
      | Some x \<Rightarrow> if x = [] then user_renames_globally env w else org_renames_globally x w)"

definition ownership_scope :: "env \<Rightarrow> string option \<Rightarrow> world \<Rightarrow> string \<Rightarrow> bool" where
  "ownership_scope env org w =
     (case org of
        None \<Rightarrow> in_personal_scope env w
      | Some x \<Rightarrow> if x = [] then in_personal_scope env w else in_org_scope x w)"

definition renamed :: "string option \<Rightarrow> update_params \<Rightarrow> member_row \<Rightarrow> member_row" where
  "renamed org ups =
     (case org of
        None \<Rightarrow> set_name_description ups
      | Some x \<Rightarrow> if x = [] then set_name_description ups else set_name ups)"

text \<open>The controller update and the member write the fan-out makes on each network.\<close>

definition fan_out :: "string \<Rightarrow> update_params \<Rightarrow> string list \<Rightarrow> event list" where
  "fan_out memberId ups ns =
     concat (map (\<lambda>n. [CtrlUpdate n memberId False (Payload ups), DbMember n memberId]) ns)"

text \<open>The world once \<open>activityLog.create\<close> has run.\<close>

definition logged :: "env \<Rightarrow> activity \<Rightarrow> string option \<Rightarrow> world \<Rightarrow> world" where
  "logged env a org w = w\<lparr>activityLog := activityLog w @
        [(a, session_user env, if truthy_str org then org else None)]\<rparr>"

text \<open>
  Controller calls and member writes change state; webhooks and admin e-mails notify.
  \<open>notified_after P c es\<close>: along \<open>es\<close>, every event that \<open>P\<close> selects comes after a
  state change (\<open>c\<close>: one has happened already).
\<close>

fun is_change :: "event \<Rightarrow> bool" where
  "is_change (CtrlUpdate n i c ps) = True"
| "is_change (CtrlDelete n i c) = True"
| "is_change (DbMember n i) = True"
| "is_change (DbMembersOf n) = True"
| "is_change (Webhook h) = False"
| "is_change (AdminNotification ev) = False"

fun is_admin_mail :: "event \<Rightarrow> bool" where
  "is_admin_mail (AdminNotification ev) = True"
| "is_admin_mail e = False"

fun is_notification :: "event \<Rightarrow> bool" where
  "is_notification (AdminNotification ev) = True"
| "is_notification (Webhook h) = True"
| "is_notification e = False"

fun notified_after :: "(event \<Rightarrow> bool) \<Rightarrow> bool \<Rightarrow> event list \<Rightarrow> bool" where
  "notified_after P c [] = True"
| "notified_after P c (e # es) = ((P e \<longrightarrow> c) \<and> notified_after P (c \<or> is_change e) es)"

definition change_first :: "event list \<Rightarrow> bool" where
  "change_first es = (case es of [] \<Rightarrow> True | e # _ \<Rightarrow> is_change e)"

section \<open>Example states\<close>

text \<open>
  A session of user \<open>u1\<close> in which every collaborator answers: the controller accepts
  each call and reports four members, \<open>10.0.0.1\<close> is the one valid address, webhooks
  and admin e-mails go through.
\<close>

definition reported :: "string \<Rightarrow> ctrl_member" where
  "reported i = \<lparr>cm_id = i, cm_authorized = True, cm_ipAssignments = []\<rparr>"

definition session :: env where
  "session = \<lparr>session_user = ''u1'', role_ok = (\<lambda>org. True),
     member_update_reply = (\<lambda>nwid i central ps. Some (reported i)),
     member_delete_ok = (\<lambda>nwid i central. True),
     isValidIP = (\<lambda>ip. ip = ''10.0.0.1''),
     webhook_ok = (\<lambda>h. True), notify_ok = (\<lambda>ev. True),
     get_controller_networks = [],
     local_network_detail = (\<lambda>nwid. Some [reported ''aaaaaaaaaa'', reported ''bbbbbbbbbb'',
                                              reported ''cccccccccc'', reported ''dddddddddd'']),
     syncMemberPeersAndStatus = (\<lambda>nwid ms w. (Some ms, w))\<rparr>"

definition device :: "string \<Rightarrow> string \<Rightarrow> bool \<Rightarrow> bool \<Rightarrow> bool \<Rightarrow> string \<Rightarrow> member_row" where
  "device i n a d p name = \<lparr>m_id = i, m_nwid = n, m_authorized = Some a, m_deleted = Some d,
     m_permanentlyDeleted = Some p, m_name = Some name, m_description = None,
     m_address = Some i\<rparr>"

definition personal_network :: "string \<Rightarrow> network_row" where
  "personal_network n = \<lparr>nw_nwid = n, nw_name = Some n, nw_authorId = Some ''u1'',
     nw_organizationId = None\<rparr>"

text \<open>
  Two personal networks of \<open>u1\<close>, who renames nodes globally. In \<open>n1\<close>: an active
  laptop, a stashed phone and a permanently deleted tablet; in \<open>n2\<close>: the same laptop.
\<close>

definition home :: world where
  "home = \<lparr>members =
       [device ''aaaaaaaaaa'' ''n1'' True False False ''laptop'',
        device ''bbbbbbbbbb'' ''n1'' False True False ''phone'',
        device ''dddddddddd'' ''n1'' False True True ''tablet'',
        device ''aaaaaaaaaa'' ''n2'' True False False ''laptop''],
     networks = [personal_network ''n1'', personal_network ''n2''],
     userOptions = (\<lambda>u. if u = ''u1''
                         then Some \<lparr>addMemberIdAsName = Some False, renameNodeGlobally = Some True\<rparr>
                         else None),
     organizationSettings = (\<lambda>org. None),
     userOrganizationRole = [], organizationUsers = [],
     activityLog = [], trace = []\<rparr>"

text \<open>
  The same tables after \<open>UpdateDatabaseOnly\<close> with \<open>deleted: false\<close> on the tablet:
  not stashed any more, still marked permanently deleted.
\<close>

definition revived :: world where
  "revived = home\<lparr>members :=
       [device ''aaaaaaaaaa'' ''n1'' True False False ''laptop'',
        device ''bbbbbbbbbb'' ''n1'' False True False ''phone'',
        device ''dddddddddd'' ''n1'' False False True ''tablet'',
        device ''aaaaaaaaaa'' ''n2'' True False False ''laptop'']\<rparr>"

text \<open>The same session with a controller that rejects every member update.\<close>

definition offline :: env where
  "offline = session\<lparr>member_update_reply := (\<lambda>nwid i central ps. None)\<rparr>"

text \<open>The same tables for a user who has no options row: names stay local.\<close>

definition home_local :: world where
  "home_local = home\<lparr>userOptions := (\<lambda>u. None)\<rparr>"

definition rename_desktop :: update_params where
  "rename_desktop = no_params\<lparr>up_name := Some ''desktop''\<rparr>"

text \<open>
  Two networks of the organization \<open>acme\<close>, which renames nodes globally, with the same
  laptop in both.
\<close>

definition acme_network :: "string \<Rightarrow> network_row" where
  "acme_network n = \<lparr>nw_nwid = n, nw_name = Some n, nw_authorId = Some ''u2'',
     nw_organizationId = Some ''acme''\<rparr>"

definition office :: world where
  "office = \<lparr>members =
       [device ''aaaaaaaaaa'' ''o1'' True False False ''laptop'',
        device ''aaaaaaaaaa'' ''o2'' True False False ''laptop''],
     networks = [acme_network ''o1'', acme_network ''o2''],
     userOptions = (\<lambda>u. None),
     organizationSettings = (\<lambda>org. if org = ''acme'' then Some (Some True) else None),
     userOrganizationRole = [(''u1'', ''acme'')], organizationUsers = [(''acme'', ''u1'')],
     activityLog = [], trace = []\<rparr>"

text \<open>Sessions in which every admin e-mail, or every webhook, fails.\<close>

definition no_mail :: env where
  "no_mail = session\<lparr>notify_ok := (\<lambda>ev. False)\<rparr>"

definition no_webhooks :: env where
  "no_webhooks = session\<lparr>webhook_ok := (\<lambda>h. False)\<rparr>"

section \<open>Tables and traces under the primitive steps\<close>

lemma members_emit [simp]: "members (emit ev w) = members w"
  by (simp add: emit_def)

lemma networks_emit [simp]: "networks (emit ev w) = networks w"
  by (simp add: emit_def)

lemma trace_emit [simp]: "trace (emit ev w) = trace w @ [ev]"
  by (simp add: emit_def)

lemma members_updateMany [simp]:
  "members (updateMany sel f w) = map (\<lambda>r. if sel r then f r else r) (members w)"
  by (simp add: updateMany_def)

lemma networks_updateMany [simp]: "networks (updateMany sel f w) = networks w"
  by (simp add: updateMany_def)

lemma trace_updateMany [simp]: "trace (updateMany sel f w) = trace w"
  by (simp add: updateMany_def)

lemmas example_defs = session_def home_def revived_def device_def personal_network_def reported_def
  office_def acme_network_def

section \<open>Member counts of \<open>getUserNetworks\<close>\<close>

lemma memberCounts_filters:
  "mc_authorized (memberCounts ms) = length (filter (\<lambda>r. m_authorized r = Some True \<and> m_deleted r \<noteq> Some True) ms)"
  "mc_total (memberCounts ms) = length (filter (\<lambda>r. m_deleted r \<noteq> Some True) ms)"
  "mc_display (memberCounts ms) = string_of_nat (mc_authorized (memberCounts ms)) @ '' ('' @ string_of_nat (mc_total (memberCounts ms)) @ '')''"
  by (simp_all add: memberCounts_def Let_def truthy_def)

lemma authorized_le_total:
  "mc_authorized (memberCounts ms) \<le> mc_total (memberCounts ms)"
  unfolding memberCounts_filters
  by (induction ms) auto

lemma total_excludes_stashed:
  "mc_total (memberCounts ms) + length (filter (\<lambda>r. m_deleted r = Some True) ms) = length ms"
  unfolding memberCounts_filters
  by (induction ms) auto

text \<open>
  C10, as amended. For every network \<open>getUserNetworks\<close> returns on the non-central path, the
  network is one the session user authored, its rows are the rows of that network, and
  \<open>memberCounts\<close> counts the rows whose \<open>deleted\<close> flag is not \<open>true\<close> (\<open>false\<close> or
  \<open>null\<close>): \<open>authorized\<close> is the number of those with \<open>authorized = true\<close>, \<open>total\<close> the
  number of all of them, \<open>display\<close> is exactly \<open>authorized (total)\<close>, \<open>authorized\<close> is at
  most \<open>total\<close>, and no row with \<open>deleted = true\<close> is counted in \<open>total\<close>. The
  \<open>permanentlyDeleted\<close> flag plays no part.
\<close>

theorem getUserNetworks_memberCounts:
  assumes "getUserNetworks env False w = LocalNetworks nets"
    and "(network, ms, counts) \<in> set nets"
  shows "nw_authorId network = Some (session_user env)
       \<and> ms = filter (\<lambda>r. m_nwid r = nw_nwid network) (members w)
       \<and> mc_authorized counts = length (filter (\<lambda>r. m_authorized r = Some True \<and> m_deleted r \<noteq> Some True) ms)
       \<and> mc_total counts = length (filter (\<lambda>r. m_deleted r \<noteq> Some True) ms)
       \<and> mc_display counts = string_of_nat (mc_authorized counts) @ '' ('' @ string_of_nat (mc_total counts) @ '')''
       \<and> mc_authorized counts \<le> mc_total counts
       \<and> mc_total counts + length (filter (\<lambda>r. m_deleted r = Some True) ms) = length ms"
proof -
  from assms have "counts = memberCounts ms" and "ms = networkMembers w network"
    and "nw_authorId network = Some (session_user env)"
    by (auto simp: getUserNetworks_def)
  then show ?thesis
    using memberCounts_filters[of ms] authorized_le_total[of ms] total_excludes_stashed[of ms]
    by (simp add: networkMembers_def)
qed

theorem getUserNetworks_memberCounts_witness:
  "getUserNetworks session False home =
     LocalNetworks
       [(personal_network ''n1'',
         [device ''aaaaaaaaaa'' ''n1'' True False False ''laptop'',
          device ''bbbbbbbbbb'' ''n1'' False True False ''phone'',
          device ''dddddddddd'' ''n1'' False True True ''tablet''],
         \<lparr>mc_authorized = 1, mc_total = 1, mc_display = ''1 (1)''\<rparr>),
        (personal_network ''n2'',
         [device ''aaaaaaaaaa'' ''n2'' True False False ''laptop''],
         \<lparr>mc_authorized = 1, mc_total = 1, mc_display = ''1 (1)''\<rparr>)]"
proof -
  let ?ms = "[device ''aaaaaaaaaa'' ''n1'' True False False ''laptop'',
          device ''bbbbbbbbbb'' ''n1'' False True False ''phone'',
          device ''dddddddddd'' ''n1'' False True True ''tablet'']"
  let ?ms2 = "[device ''aaaaaaaaaa'' ''n2'' True False False ''laptop'']"
  obtain c1 c2 where run: "getUserNetworks session False home =
     LocalNetworks [(personal_network ''n1'', ?ms, c1), (personal_network ''n2'', ?ms2, c2)]"
    by (simp add: getUserNetworks_def networkMembers_def example_defs)
  have "(personal_network ''n1'', ?ms, c1) \<in> set [(personal_network ''n1'', ?ms, c1), (personal_network ''n2'', ?ms2, c2)]"
    by simp
  from getUserNetworks_memberCounts[OF run this]
  have c1: "c1 = \<lparr>mc_authorized = 1, mc_total = 1, mc_display = ''1 (1)''\<rparr>"
    by (cases c1) (simp add: device_def string_of_nat.simps digit_def)
  have "(personal_network ''n2'', ?ms2, c2) \<in> set [(personal_network ''n1'', ?ms, c1), (personal_network ''n2'', ?ms2, c2)]"
    by simp
  from getUserNetworks_memberCounts[OF run this]
  have c2: "c2 = \<lparr>mc_authorized = 1, mc_total = 1, mc_display = ''1 (1)''\<rparr>"
    by (cases c2) (simp add: device_def string_of_nat.simps digit_def)
  from run c1 c2 show ?thesis by simp
qed

text \<open>
  C10 as stated fails: a row that is marked permanently deleted but no longer stashed
  (the tablet of \<open>revived\<close>) is counted in \<open>total\<close>, and so is a row whose \<open>deleted\<close>
  flag is \<open>null\<close>.
\<close>

theorem getUserNetworks_counts_revived:
  "getUserNetworks session False revived =
     LocalNetworks
       [(personal_network ''n1'',
         [device ''aaaaaaaaaa'' ''n1'' True False False ''laptop'',
          device ''bbbbbbbbbb'' ''n1'' False True False ''phone'',
          device ''dddddddddd'' ''n1'' False False True ''tablet''],
         \<lparr>mc_authorized = 1, mc_total = 2, mc_display = ''1 (2)''\<rparr>),
        (personal_network ''n2'',
         [device ''aaaaaaaaaa'' ''n2'' True False False ''laptop''],
         \<lparr>mc_authorized = 1, mc_total = 1, mc_display = ''1 (1)''\<rparr>)]
   \<and> m_permanentlyDeleted (device ''dddddddddd'' ''n1'' False False True ''tablet'') = Some True
   \<and> memberCounts [(device ''aaaaaaaaaa'' ''n1'' True False False ''laptop'')\<lparr>m_deleted := None\<rparr>]
       = \<lparr>mc_authorized = 1, mc_total = 1, mc_display = ''1 (1)''\<rparr>
   \<and> filter (\<lambda>r. m_deleted r = Some False)
        [(device ''aaaaaaaaaa'' ''n1'' True False False ''laptop'')\<lparr>m_deleted := None\<rparr>] = []"
  by (simp add: getUserNetworks_def networkMembers_def memberCounts_def truthy_def example_defs
        string_of_nat.simps digit_def)

section \<open>\<open>bulkDeleteStashed\<close>\<close>

lemma map_bulk_selection:
  "map (\<lambda>r. if m_nwid r = nwid \<and> m_id r \<in> m_id ` {r \<in> set rows. m_nwid r = nwid \<and> m_deleted r = Some True} \<and> m_deleted r = Some True
         then r\<lparr>m_permanentlyDeleted := Some True\<rparr> else r) rows = map (mark_stashed nwid) rows"
  by (rule map_cong) (auto simp: mark_stashed_def)

lemma map_mark_stashed_none:
  "filter (\<lambda>r. m_nwid r = nwid \<and> m_deleted r = Some True) rows = [] \<Longrightarrow> map (mark_stashed nwid) rows = rows"
  by (induction rows) (auto simp: mark_stashed_def split: if_splits)

lemma bulkDeleteStashed_members:
  "members (snd (bulkDeleteStashed env nwid org w)) =
     (case fst (bulkDeleteStashed env nwid org w) of Inl e \<Rightarrow> members w | Inr c \<Rightarrow> map (mark_stashed nwid) (members w))"
  by (auto simp: bulkDeleteStashed_def accessible_network_def await_def ret_def throw_def try_catch_def
       activityLog_create_def sendWebhook_def Let_def map_bulk_selection map_mark_stashed_none
       split: option.splits sum.splits prod.splits if_splits)


lemma mark_stashed_idem: "mark_stashed nwid (mark_stashed nwid r) = mark_stashed nwid r"
  by (simp add: mark_stashed_def)

lemma stashed_after_mark:
  "filter (\<lambda>r. m_nwid r = nwid \<and> m_deleted r = Some True) (map (mark_stashed nwid) rows)
     = map (mark_stashed nwid) (filter (\<lambda>r. m_nwid r = nwid \<and> m_deleted r = Some True) rows)"
  by (induction rows) (auto simp: mark_stashed_def)

lemma bulkDeleteStashed_count:
  "fst (bulkDeleteStashed env nwid org w) = Inr c \<Longrightarrow>
     c = length (filter (\<lambda>r. m_nwid r = nwid \<and> m_deleted r = Some True) (members w))"
  by (auto simp: bulkDeleteStashed_def accessible_network_def await_def ret_def throw_def try_catch_def
       activityLog_create_def sendWebhook_def Let_def
       split: option.splits sum.splits prod.splits if_splits intro!: arg_cong[where f=length] filter_cong)

lemma bulkDeleteStashed_access:
  "fst (bulkDeleteStashed env nwid org w) = Inr c \<Longrightarrow>
   networks w' = networks w \<Longrightarrow> userOrganizationRole w' = userOrganizationRole w \<Longrightarrow>
   \<exists>c'. fst (bulkDeleteStashed env nwid org w') = Inr c'"
  by (auto simp: bulkDeleteStashed_def accessible_network_def await_def ret_def throw_def try_catch_def
       activityLog_create_def sendWebhook_def Let_def
       split: option.splits sum.splits prod.splits if_splits)

lemma bulkDeleteStashed_tables:
  "networks (snd (bulkDeleteStashed env nwid org w)) = networks w"
  "userOrganizationRole (snd (bulkDeleteStashed env nwid org w)) = userOrganizationRole w"
  by (auto simp: bulkDeleteStashed_def accessible_network_def await_def ret_def throw_def try_catch_def
       activityLog_create_def sendWebhook_def Let_def emit_def updateMany_def
       split: option.splits sum.splits prod.splits if_splits)

text \<open>
  C5. When \<open>bulkDeleteStashed\<close> is let through (the network is found for the caller), it
  sets \<open>permanentlyDeleted = true\<close> on exactly the rows of the given network that have
  \<open>deleted = true\<close> and leaves every other row as it was, it answers their number, and
  running it a second time answers the same number and leaves every member row as the
  first run left it.
\<close>

theorem bulkDeleteStashed_marks_stashed_idempotent:
  assumes ok: "fst (bulkDeleteStashed env nwid org w) = Inr count"
  shows "members (snd (bulkDeleteStashed env nwid org w)) = map (mark_stashed nwid) (members w)
       \<and> count = length (filter (\<lambda>r. m_nwid r = nwid \<and> m_deleted r = Some True) (members w))
       \<and> fst (bulkDeleteStashed env nwid org (snd (bulkDeleteStashed env nwid org w))) = Inr count
       \<and> members (snd (bulkDeleteStashed env nwid org (snd (bulkDeleteStashed env nwid org w))))
           = members (snd (bulkDeleteStashed env nwid org w))"
proof -
  let ?w1 = "snd (bulkDeleteStashed env nwid org w)"
  have m1: "members ?w1 = map (mark_stashed nwid) (members w)"
    using ok by (simp add: bulkDeleteStashed_members)
  have c: "count = length (filter (\<lambda>r. m_nwid r = nwid \<and> m_deleted r = Some True) (members w))"
    using ok by (rule bulkDeleteStashed_count)
  obtain c' where ok2: "fst (bulkDeleteStashed env nwid org ?w1) = Inr c'"
    using bulkDeleteStashed_access[OF ok, of ?w1] by (auto simp: bulkDeleteStashed_tables)
  have "c' = length (filter (\<lambda>r. m_nwid r = nwid \<and> m_deleted r = Some True) (members ?w1))"
    using ok2 by (rule bulkDeleteStashed_count)
  then have c2: "c' = count"
    by (simp add: m1 c stashed_after_mark)
  have m2: "members (snd (bulkDeleteStashed env nwid org ?w1)) = members ?w1"
    using ok2 by (simp add: bulkDeleteStashed_members[of env nwid org ?w1] m1 mark_stashed_idem)
  from m1 c ok2 c2 m2 show ?thesis by simp
qed

theorem bulkDeleteStashed_witness:
  "fst (bulkDeleteStashed session ''n1'' None home) = Inr 2
   \<and> map m_permanentlyDeleted (members (snd (bulkDeleteStashed session ''n1'' None home)))
       = [Some False, Some True, Some True, Some False]
   \<and> members (snd (bulkDeleteStashed session ''n1'' None (snd (bulkDeleteStashed session ''n1'' None home))))
       = members (snd (bulkDeleteStashed session ''n1'' None home))"
proof -
  have run: "fst (bulkDeleteStashed session ''n1'' None home) = Inr 2"
    by (simp add: bulkDeleteStashed_def accessible_network_def await_def ret_def throw_def
          try_catch_def activityLog_create_def sendWebhook_def Let_def example_defs)
  from bulkDeleteStashed_marks_stashed_idempotent[OF run] run show ?thesis
    by (simp add: mark_stashed_def example_defs)
qed

section \<open>Reconciliation in \<open>getNetworkById\<close>\<close>

lemma in_map_set: "(k', v') \<in> set (map_set k v m) \<Longrightarrow> (k' = k \<and> v' = v) \<or> (k', v') \<in> set m"
  by (induction m) (auto split: if_splits)

lemma database_entries:
  "(k, v) \<in> set (foldl (add_database_member ctrl) acc rows) \<Longrightarrow>
     (k, v) \<in> set acc \<or>
     (\<exists>r \<in> set rows. k = m_id r \<and> merged_id v = m_id r \<and> \<not> truthy (m_deleted r)
         \<and> (\<forall>c. v \<noteq> ControllerOnly c))"
proof (induction rows arbitrary: acc)
  case Nil
  then show ?case by simp
next
  case (Cons r rows)
  from Cons.prems have "(k, v) \<in> set (foldl (add_database_member ctrl) (add_database_member ctrl acc r) rows)"
    by simp
  from Cons.IH[OF this] show ?case
  proof
    assume "(k, v) \<in> set (add_database_member ctrl acc r)"
    then have "(k, v) \<in> set acc \<or> (k = m_id r \<and> merged_id v = m_id r \<and> \<not> truthy (m_deleted r) \<and> (\<forall>c. v \<noteq> ControllerOnly c))"
      by (auto simp: add_database_member_def split: option.splits if_splits dest!: in_map_set)
    then show ?thesis by auto
  next
    assume "\<exists>r\<in>set rows. k = m_id r \<and> merged_id v = m_id r \<and> \<not> truthy (m_deleted r) \<and> (\<forall>c. v \<noteq> ControllerOnly c)"
    then show ?thesis by auto
  qed
qed

lemma controller_entries:
  "(k, v) \<in> set (foldl (add_controller_member db perm) acc ctrl) \<Longrightarrow>
     (k, v) \<in> set acc \<or>
     (\<exists>c \<in> set ctrl. k = cm_id c \<and> v = ControllerOnly c \<and> cm_id c \<notin> m_id ` set db \<and> cm_id c \<notin> set perm)"
proof (induction ctrl arbitrary: acc)
  case Nil
  then show ?case by simp
next
  case (Cons c ctrl)
  from Cons.prems have "(k, v) \<in> set (foldl (add_controller_member db perm) (add_controller_member db perm acc c) ctrl)"
    by simp
  from Cons.IH[OF this] show ?case
  proof
    assume "(k, v) \<in> set (add_controller_member db perm acc c)"
    then have "(k, v) \<in> set acc \<or> (k = cm_id c \<and> v = ControllerOnly c \<and> cm_id c \<notin> m_id ` set db \<and> cm_id c \<notin> set perm)"
      by (auto simp: add_controller_member_def list_ex_iff split: if_splits dest!: in_map_set)
    then show ?thesis by auto
  next
    assume "\<exists>c\<in>set ctrl. k = cm_id c \<and> v = ControllerOnly c \<and> cm_id c \<notin> m_id ` set db \<and> cm_id c \<notin> set perm"
    then show ?thesis by auto
  qed
qed

lemma mergedMembers_origin:
  assumes "v \<in> set (mergedMembers nwid w ctrl)"
  shows "(\<exists>r \<in> set (members w). m_nwid r = nwid \<and> merged_id v = m_id r \<and> \<not> truthy (m_deleted r) \<and> (\<forall>c. v \<noteq> ControllerOnly c))
       \<or> (\<exists>c \<in> set ctrl. v = ControllerOnly c \<and> cm_id c \<notin> set (permanentlyDeletedMemberIds nwid w)
             \<and> (\<forall>r \<in> set (members w). m_nwid r = nwid \<longrightarrow> m_id r \<noteq> cm_id c))"
proof -
  from assms obtain k where
    "(k, v) \<in> set (foldl (add_controller_member (allDatabaseMembers nwid w) (permanentlyDeletedMemberIds nwid w))
         (foldl (add_database_member ctrl) [] (allDatabaseMembers nwid w)) ctrl)"
    by (auto simp: mergedMembers_def Let_def)
  from controller_entries[OF this] show ?thesis
  proof
    assume "(k, v) \<in> set (foldl (add_database_member ctrl) [] (allDatabaseMembers nwid w))"
    from database_entries[OF this] show ?thesis
      by (auto simp: allDatabaseMembers_def)
  next
    assume "\<exists>c\<in>set ctrl. k = cm_id c \<and> v = ControllerOnly c \<and> cm_id c \<notin> m_id ` set (allDatabaseMembers nwid w) \<and> cm_id c \<notin> set (permanentlyDeletedMemberIds nwid w)"
    then obtain c where c: "c \<in> set ctrl" "v = ControllerOnly c"
      "cm_id c \<notin> m_id ` set (allDatabaseMembers nwid w)"
      "cm_id c \<notin> set (permanentlyDeletedMemberIds nwid w)" by blast
    from c(3) have "\<forall>r \<in> set (members w). m_nwid r = nwid \<longrightarrow> m_id r \<noteq> cm_id c"
      by (force simp: allDatabaseMembers_def)
    with c show ?thesis by blast
  qed
qed

lemma unique_members_same_row:
  "unique_members w \<Longrightarrow> r \<in> set (members w) \<Longrightarrow> r' \<in> set (members w) \<Longrightarrow>
     m_id r = m_id r' \<Longrightarrow> m_nwid r = m_nwid r' \<Longrightarrow> r = r'"
  unfolding unique_members_def
  by (metis (mono_tags, lifting) distinct_map inj_onD prod.inject)

lemma getNetworkById_result:
  assumes "getNetworkById env nwid False w = (Inr (LocalDetail ms zs), w')"
  shows "\<exists>ctrl. ms = mergedMembers nwid w' ctrl \<and> zs = zombieMembers nwid w'"
  using assms
  by (auto simp: getNetworkById_def throwError_def throw_def ret_def Let_def
      split: option.splits if_splits prod.splits)

text \<open>
  C1, as amended. When \<open>getNetworkById\<close> answers on the non-central path, the merged list
  holds no member whose database row of that network has \<open>deleted = true\<close>, so none that
  is permanently deleted and still stashed, whatever the controller reports; and a
  controller-reported member merged without a database row has no row in that network
  and is not in the set of permanently deleted identifiers.
\<close>

theorem getNetworkById_never_lists_stashed:
  assumes run: "getNetworkById env nwid False w = (Inr (LocalDetail ms zs), w')"
    and uniq: "unique_members w'"
  shows "(\<forall>r \<in> set (members w'). m_nwid r = nwid \<and> m_deleted r = Some True \<longrightarrow> m_id r \<notin> merged_id ` set ms)
       \<and> (\<forall>c. ControllerOnly c \<in> set ms \<longrightarrow>
             cm_id c \<notin> set (permanentlyDeletedMemberIds nwid w')
             \<and> (\<forall>r \<in> set (members w'). m_nwid r = nwid \<longrightarrow> m_id r \<noteq> cm_id c))"
proof -
  from getNetworkById_result[OF run] obtain ctrl where ms: "ms = mergedMembers nwid w' ctrl"
    by blast
  have stashed: "m_id r \<notin> merged_id ` set ms"
    if r: "r \<in> set (members w')" "m_nwid r = nwid" "m_deleted r = Some True" for r
  proof
    assume "m_id r \<in> merged_id ` set ms"
    then obtain v where v: "v \<in> set (mergedMembers nwid w' ctrl)" "merged_id v = m_id r"
      unfolding ms by auto
    from mergedMembers_origin[OF v(1)] show False
    proof
      assume "\<exists>r'\<in>set (members w'). m_nwid r' = nwid \<and> merged_id v = m_id r' \<and> \<not> truthy (m_deleted r') \<and> (\<forall>c. v \<noteq> ControllerOnly c)"
      then obtain r' where r': "r' \<in> set (members w')" "m_nwid r' = nwid" "merged_id v = m_id r'"
        "\<not> truthy (m_deleted r')" by blast
      with r v(2) have "r = r'"
        using unique_members_same_row[OF uniq, of r r'] by simp
      with r(3) r'(4) show False by (simp add: truthy_def)
    next
      assume "\<exists>c\<in>set ctrl. v = ControllerOnly c \<and> cm_id c \<notin> set (permanentlyDeletedMemberIds nwid w') \<and>
                (\<forall>r\<in>set (members w'). m_nwid r = nwid \<longrightarrow> m_id r \<noteq> cm_id c)"
      with r v(2) show False by auto
    qed
  qed
  have ctrl_only: "cm_id c \<notin> set (permanentlyDeletedMemberIds nwid w')
             \<and> (\<forall>r \<in> set (members w'). m_nwid r = nwid \<longrightarrow> m_id r \<noteq> cm_id c)"
    if "ControllerOnly c \<in> set ms" for c
    using mergedMembers_origin[of "ControllerOnly c" nwid w' ctrl] that unfolding ms by auto
  from stashed ctrl_only show ?thesis by blast
qed

theorem getNetworkById_witness:
  "getNetworkById session ''n1'' False home =
     (Inr (LocalDetail
        [Merged (reported ''aaaaaaaaaa'') (device ''aaaaaaaaaa'' ''n1'' True False False ''laptop''),
         ControllerOnly (reported ''cccccccccc'')]
        [device ''bbbbbbbbbb'' ''n1'' False True False ''phone'']), home)
   \<and> unique_members home
   \<and> ''bbbbbbbbbb'' \<notin> merged_id ` set
        [Merged (reported ''aaaaaaaaaa'') (device ''aaaaaaaaaa'' ''n1'' True False False ''laptop''),
         ControllerOnly (reported ''cccccccccc'')]
   \<and> ''dddddddddd'' \<notin> merged_id ` set
        [Merged (reported ''aaaaaaaaaa'') (device ''aaaaaaaaaa'' ''n1'' True False False ''laptop''),
         ControllerOnly (reported ''cccccccccc'')]
   \<and> ''cccccccccc'' \<notin> set (permanentlyDeletedMemberIds ''n1'' home)"
proof -
  let ?ms = "[Merged (reported ''aaaaaaaaaa'') (device ''aaaaaaaaaa'' ''n1'' True False False ''laptop''),
         ControllerOnly (reported ''cccccccccc'')]"
  have run: "getNetworkById session ''n1'' False home =
     (Inr (LocalDetail ?ms [device ''bbbbbbbbbb'' ''n1'' False True False ''phone'']), home)"
    by (simp add: getNetworkById_def network_of_def mergedMembers_def zombieMembers_def
          allDatabaseMembers_def permanentlyDeletedMemberIds_def add_database_member_def
          add_controller_member_def ret_def truthy_def Let_def example_defs)
  have uniq: "unique_members home"
    by (simp add: unique_members_def example_defs)
  let ?phone = "device ''bbbbbbbbbb'' ''n1'' False True False ''phone''"
  let ?tablet = "device ''dddddddddd'' ''n1'' False True True ''tablet''"
  have phone: "?phone \<in> set (members home)" "m_nwid ?phone = ''n1''" "m_deleted ?phone = Some True"
    "m_id ?phone = ''bbbbbbbbbb''"
    by (simp_all add: example_defs)
  have tablet: "?tablet \<in> set (members home)" "m_nwid ?tablet = ''n1''" "m_deleted ?tablet = Some True"
    "m_id ?tablet = ''dddddddddd''"
    by (simp_all add: example_defs)
  note facts = getNetworkById_never_lists_stashed[OF run uniq]
  from facts phone have stashed: "''bbbbbbbbbb'' \<notin> merged_id ` set ?ms"
    by metis
  from facts tablet have gone: "''dddddddddd'' \<notin> merged_id ` set ?ms"
    by metis
  from facts have "cm_id (reported ''cccccccccc'') \<notin> set (permanentlyDeletedMemberIds ''n1'' home)"
    by simp
  then have new: "''cccccccccc'' \<notin> set (permanentlyDeletedMemberIds ''n1'' home)"
    by (simp add: reported_def)
  from run uniq stashed gone new show ?thesis by blast
qed

text \<open>
  C1 as stated fails: the tablet of \<open>revived\<close> has \<open>permanentlyDeleted = true\<close> and
  \<open>deleted = false\<close>, the controller reports it, and the merged list holds it.
\<close>

theorem getNetworkById_lists_revived:
  "getNetworkById session ''n1'' False revived =
     (Inr (LocalDetail
        [Merged (reported ''aaaaaaaaaa'') (device ''aaaaaaaaaa'' ''n1'' True False False ''laptop''),
         Merged (reported ''dddddddddd'') (device ''dddddddddd'' ''n1'' False False True ''tablet''),
         ControllerOnly (reported ''cccccccccc'')]
        [device ''bbbbbbbbbb'' ''n1'' False True False ''phone'']), revived)
   \<and> m_permanentlyDeleted (device ''dddddddddd'' ''n1'' False False True ''tablet'') = Some True"
  by (simp add: getNetworkById_def network_of_def mergedMembers_def zombieMembers_def
          allDatabaseMembers_def permanentlyDeletedMemberIds_def add_database_member_def
          add_controller_member_def ret_def truthy_def Let_def example_defs)

section \<open>\<open>delete\<close>\<close>

lemma find_filter_not: "find P (filter (\<lambda>x. \<not> P x) xs) = None"
  by (induction xs) auto

lemma find_map_update:
  "(\<And>x. P (f x) = P x) \<Longrightarrow> find P (map (\<lambda>x. if P x then f x else x) xs) = map_option f (find P xs)"
  by (induction xs) auto

lemma when_org_allowed:
  "org_allowed env org \<Longrightarrow> when_org org (checkUserOrganizationRole env) w = (Inr (), w)"
  by (auto simp: org_allowed_def when_org_def checkUserOrganizationRole_def ret_def split: option.splits)

lemma when_org_refused:
  "\<not> org_allowed env org \<Longrightarrow> when_org org (checkUserOrganizationRole env) w = (Inl RoleRejected, w)"
  by (auto simp: org_allowed_def when_org_def checkUserOrganizationRole_def ret_def throw_def split: option.splits)

lemma notify_admins_run:
  "notify_admins env org ev w =
     (Inr (), case org of None \<Rightarrow> w | Some x \<Rightarrow> if x = [] then w else emit (AdminNotification ev) w)"
  by (auto simp: notify_admins_def when_org_def try_catch_def sendOrganizationAdminNotification_def ret_def
        split: option.splits)

lemma find_member_log [simp]:
  "find_member i n (w\<lparr>activityLog := l\<rparr>) = find_member i n w"
  by (simp add: find_member_def)


lemmas handler_defs = await_def ret_def throw_def try_catch_def throwError_def

lemma delete_active:
  assumes allowed: "org_allowed env org" and row: "find_member i nwid w = Some r"
    and active: "m_deleted r \<noteq> Some True" and ctrl: "member_delete_ok env nwid i False"
  shows "members (snd (delete env org False nwid i w)) = filter (\<lambda>x. \<not> is_member i nwid x) (members w)"
    and "CtrlDelete nwid i False \<in> set (new_events w (snd (delete env org False nwid i w)))"
  using row active ctrl
  by (auto simp: delete_def handler_defs when_org_allowed[OF allowed] activityLog_create_def Let_def
        truthy_def member_delete_def delete_row_def notify_admins_run sendWebhook_def new_events_def
        find_member_def emit_def
        split: option.splits)

lemma delete_stashed:
  assumes allowed: "org_allowed env org" and row: "find_member i nwid w = Some r"
    and stashed: "m_deleted r = Some True"
  shows "fst (delete env org False nwid i w) = Inr (Some True)"
    and "members (snd (delete env org False nwid i w))
              = map (\<lambda>x. if is_member i nwid x then x\<lparr>m_permanentlyDeleted := Some True\<rparr> else x) (members w)"
    and "CtrlDelete nwid i False \<notin> set (new_events w (snd (delete env org False nwid i w)))"
  using row stashed
  by (auto simp: delete_def handler_defs when_org_allowed[OF allowed] activityLog_create_def Let_def
        truthy_def member_delete_def update_member_def notify_admins_run new_events_def
        find_member_def emit_def
        split: option.splits)

text \<open>
  C2. On a non-central network, for a member with a database row and a caller the
  organization check lets through, \<open>delete\<close> branches on the row's \<open>deleted\<close> flag. If
  the flag is not \<open>true\<close> and the controller accepts the call, the member is deleted on
  the controller and the row is deleted outright: no row for the member is left. If the
  flag is \<open>true\<close>, the controller is not asked, the row is kept and its
  \<open>permanentlyDeleted\<close> field is set to \<open>true\<close>, and the handler answers
  \<open>{ deleted: true }\<close>.
\<close>

theorem delete_branches_on_deleted:
  assumes allowed: "org_allowed env org" and row: "find_member i nwid w = Some r"
  shows "(m_deleted r \<noteq> Some True \<and> member_delete_ok env nwid i False \<longrightarrow>
            CtrlDelete nwid i False \<in> set (new_events w (snd (delete env org False nwid i w)))
          \<and> members (snd (delete env org False nwid i w)) = filter (\<lambda>x. \<not> is_member i nwid x) (members w)
          \<and> find_member i nwid (snd (delete env org False nwid i w)) = None)
       \<and> (m_deleted r = Some True \<longrightarrow>
            fst (delete env org False nwid i w) = Inr (Some True)
          \<and> CtrlDelete nwid i False \<notin> set (new_events w (snd (delete env org False nwid i w)))
          \<and> members (snd (delete env org False nwid i w))
              = map (\<lambda>x. if is_member i nwid x then x\<lparr>m_permanentlyDeleted := Some True\<rparr> else x) (members w)
          \<and> find_member i nwid (snd (delete env org False nwid i w)) = Some (r\<lparr>m_permanentlyDeleted := Some True\<rparr>))"
proof (intro conjI impI)
  assume a: "m_deleted r \<noteq> Some True \<and> member_delete_ok env nwid i False"
  note facts = delete_active[OF allowed row conjunct1[OF a] conjunct2[OF a]]
  show "CtrlDelete nwid i False \<in> set (new_events w (snd (delete env org False nwid i w)))"
    by (rule facts(2))
  show "members (snd (delete env org False nwid i w)) = filter (\<lambda>x. \<not> is_member i nwid x) (members w)"
    by (rule facts(1))
  show "find_member i nwid (snd (delete env org False nwid i w)) = None"
    by (simp add: find_member_def facts(1) find_filter_not)
next
  assume a: "m_deleted r = Some True"
  note facts = delete_stashed[OF allowed row a]
  show "fst (delete env org False nwid i w) = Inr (Some True)"
    by (rule facts(1))
  show "members (snd (delete env org False nwid i w))
              = map (\<lambda>x. if is_member i nwid x then x\<lparr>m_permanentlyDeleted := Some True\<rparr> else x) (members w)"
    by (rule facts(2))
  show "CtrlDelete nwid i False \<notin> set (new_events w (snd (delete env org False nwid i w)))"
    by (rule facts(3))
  have keep: "is_member i nwid (x\<lparr>m_permanentlyDeleted := Some True\<rparr>) = is_member i nwid x" for x
    by (simp add: is_member_def)
  show "find_member i nwid (snd (delete env org False nwid i w)) = Some (r\<lparr>m_permanentlyDeleted := Some True\<rparr>)"
    using row
    by (simp add: find_member_def facts(2) find_map_update[where P="is_member i nwid", OF keep])
qed

lemmas run_defs = handler_defs when_org_def checkUserOrganizationRole_def activityLog_create_def
  member_update_def member_delete_def sendWebhook_def sendOrganizationAdminNotification_def
  notify_admins_def find_member_def is_member_def network_of_def updateMany_def update_member_def
  delete_row_def create_row_def emit_def truthy_def truthy_str_def Let_def

theorem delete_witness:
  "org_allowed session None
   \<and> find_member ''aaaaaaaaaa'' ''n1'' home = Some (device ''aaaaaaaaaa'' ''n1'' True False False ''laptop'')
   \<and> find_member ''aaaaaaaaaa'' ''n1'' (snd (delete session None False ''n1'' ''aaaaaaaaaa'' home)) = None
   \<and> find_member ''bbbbbbbbbb'' ''n1'' home = Some (device ''bbbbbbbbbb'' ''n1'' False True False ''phone'')
   \<and> find_member ''bbbbbbbbbb'' ''n1'' (snd (delete session None False ''n1'' ''bbbbbbbbbb'' home))
       = Some (device ''bbbbbbbbbb'' ''n1'' False True True ''phone'')"
proof -
  have allowed: "org_allowed session None"
    by (simp add: org_allowed_def)
  have laptop: "find_member ''aaaaaaaaaa'' ''n1'' home = Some (device ''aaaaaaaaaa'' ''n1'' True False False ''laptop'')"
    by (simp add: find_member_def is_member_def example_defs)
  have phone: "find_member ''bbbbbbbbbb'' ''n1'' home = Some (device ''bbbbbbbbbb'' ''n1'' False True False ''phone'')"
    by (simp add: find_member_def is_member_def example_defs)
  have ok: "member_delete_ok session ''n1'' ''aaaaaaaaaa'' False"
    by (simp add: session_def)
  from delete_branches_on_deleted[OF allowed laptop] ok
  have gone: "find_member ''aaaaaaaaaa'' ''n1'' (snd (delete session None False ''n1'' ''aaaaaaaaaa'' home)) = None"
    by (simp add: device_def)
  from delete_branches_on_deleted[OF allowed phone]
  have kept: "find_member ''bbbbbbbbbb'' ''n1'' (snd (delete session None False ''n1'' ''bbbbbbbbbb'' home))
       = Some (device ''bbbbbbbbbb'' ''n1'' False True True ''phone'')"
    by (simp add: device_def)
  from allowed laptop phone gone kept show ?thesis by blast
qed

section \<open>\<open>create\<close> on an existing row\<close>

lemma unique_count_le:
  "distinct (map (\<lambda>r. (m_id r, m_nwid r)) rows) \<Longrightarrow> length (filter (is_member i n) rows) \<le> 1"
proof (induction rows)
  case Nil
  then show ?case by simp
next
  case (Cons r rows)
  show ?case
  proof (cases "is_member i n r")
    case True
    have "\<not> is_member i n x" if "x \<in> set rows" for x
    proof
      assume "is_member i n x"
      with True have "(m_id x, m_nwid x) = (m_id r, m_nwid r)"
        by (simp add: is_member_def)
      with that have "(m_id r, m_nwid r) \<in> set (map (\<lambda>r. (m_id r, m_nwid r)) rows)"
        by (metis (mono_tags, lifting) image_eqI list.set_map)
      with Cons.prems show False by simp
    qed
    then have "filter (is_member i n) rows = []"
      by (simp add: filter_empty_conv)
    with True show ?thesis by simp
  next
    case False
    with Cons show ?thesis by simp
  qed
qed

lemma unique_count_one:
  assumes "unique_members w" and "find_member i n w = Some r"
  shows "length (filter (is_member i n) (members w)) = 1"
proof -
  from assms(2) have "r \<in> set (members w)" "is_member i n r"
    by (auto simp: find_member_def find_Some_iff)
  then have "filter (is_member i n) (members w) \<noteq> []"
    by (auto simp: filter_empty_conv)
  then have "length (filter (is_member i n) (members w)) \<ge> 1"
    by (cases "filter (is_member i n) (members w)") auto
  moreover have "length (filter (is_member i n) (members w)) \<le> 1"
    using assms(1) unfolding unique_members_def by (rule unique_count_le)
  ultimately show ?thesis by simp
qed

lemma filter_map_update:
  "(\<And>x. P (f x) = P x) \<Longrightarrow> filter P (map (\<lambda>x. if P x then f x else x) xs) = map f (filter P xs)"
  by (induction xs) auto

lemma create_existing:
  assumes valid: "isValidZeroTierNetworkId i" and allowed: "org_allowed env org"
    and row: "find_member i nwid w = Some r"
  shows "\<exists>name. fst (create env org i nwid False w)
            = Inr (UpdatedMember (r\<lparr>m_deleted := Some False, m_permanentlyDeleted := Some False, m_name := name\<rparr>))
          \<and> members (snd (create env org i nwid False w))
            = map (\<lambda>x. if is_member i nwid x
                        then x\<lparr>m_deleted := Some False, m_permanentlyDeleted := Some False, m_name := name\<rparr>
                        else x) (members w)"
  using row valid
  by (auto simp: create_def handler_defs when_org_allowed[OF allowed] activityLog_create_def
        update_member_def notify_admins_run find_member_def
        split: option.splits)

text \<open>
  C4. On a non-central network, with a well-formed member identifier and a caller the
  organization check lets through, \<open>create\<close> on a pair \<open>(id, nwid)\<close> that already has
  its row updates that row in place: \<open>deleted\<close> and \<open>permanentlyDeleted\<close> become
  \<open>false\<close>, the handler answers the updated row, no row is inserted, and the number of
  rows for the pair stays exactly one.
\<close>

theorem create_readds_in_place:
  assumes valid: "isValidZeroTierNetworkId i" and allowed: "org_allowed env org"
    and uniq: "unique_members w" and row: "find_member i nwid w = Some r"
  shows "(\<exists>name. fst (create env org i nwid False w)
            = Inr (UpdatedMember (r\<lparr>m_deleted := Some False, m_permanentlyDeleted := Some False, m_name := name\<rparr>))
          \<and> members (snd (create env org i nwid False w))
            = map (\<lambda>x. if is_member i nwid x
                        then x\<lparr>m_deleted := Some False, m_permanentlyDeleted := Some False, m_name := name\<rparr>
                        else x) (members w))
       \<and> length (filter (is_member i nwid) (members w)) = 1
       \<and> length (filter (is_member i nwid) (members (snd (create env org i nwid False w)))) = 1
       \<and> length (members (snd (create env org i nwid False w))) = length (members w)"
proof -
  from create_existing[OF valid allowed row] obtain name where
    res: "fst (create env org i nwid False w)
            = Inr (UpdatedMember (r\<lparr>m_deleted := Some False, m_permanentlyDeleted := Some False, m_name := name\<rparr>))"
    and mem: "members (snd (create env org i nwid False w))
            = map (\<lambda>x. if is_member i nwid x
                        then x\<lparr>m_deleted := Some False, m_permanentlyDeleted := Some False, m_name := name\<rparr>
                        else x) (members w)"
    by blast
  have one: "length (filter (is_member i nwid) (members w)) = 1"
    using uniq row by (rule unique_count_one)
  have keep: "is_member i nwid (x\<lparr>m_deleted := Some False, m_permanentlyDeleted := Some False, m_name := name\<rparr>)
                = is_member i nwid x" for x
    by (simp add: is_member_def)
  have "length (filter (is_member i nwid) (members (snd (create env org i nwid False w)))) = 1"
    unfolding mem filter_map_update[where P="is_member i nwid", OF keep] using one by simp
  moreover have "length (members (snd (create env org i nwid False w))) = length (members w)"
    unfolding mem by simp
  ultimately show ?thesis using res mem one by blast
qed

theorem create_witness:
  "isValidZeroTierNetworkId ''bbbbbbbbbb'' \<and> org_allowed session None \<and> unique_members home
   \<and> find_member ''bbbbbbbbbb'' ''n1'' home = Some (device ''bbbbbbbbbb'' ''n1'' False True False ''phone'')
   \<and> length (filter (is_member ''bbbbbbbbbb'' ''n1'') (members (snd (create session None ''bbbbbbbbbb'' ''n1'' False home)))) = 1
   \<and> length (members (snd (create session None ''bbbbbbbbbb'' ''n1'' False home))) = 4
   \<and> find_member ''bbbbbbbbbb'' ''n1'' (snd (create session None ''bbbbbbbbbb'' ''n1'' False home))
        = Some (device ''bbbbbbbbbb'' ''n1'' False False False ''phone'')"
proof -
  have valid: "isValidZeroTierNetworkId ''bbbbbbbbbb''"
    by (simp add: isValidZeroTierNetworkId_def is_hex_char_def)
  have allowed: "org_allowed session None"
    by (simp add: org_allowed_def)
  have uniq: "unique_members home"
    by (simp add: unique_members_def example_defs)
  have phone: "find_member ''bbbbbbbbbb'' ''n1'' home = Some (device ''bbbbbbbbbb'' ''n1'' False True False ''phone'')"
    by (simp add: find_member_def is_member_def example_defs)
  have after: "find_member ''bbbbbbbbbb'' ''n1'' (snd (create session None ''bbbbbbbbbb'' ''n1'' False home))
        = Some (device ''bbbbbbbbbb'' ''n1'' False False False ''phone'')"
    using valid
    by (simp add: create_def run_defs readd_name_def user_renames_globally_def existing_name_def
          in_personal_scope_def example_defs)
  from create_readds_in_place[OF valid allowed uniq phone] valid allowed uniq phone after
  show ?thesis
    by (simp add: home_def)
qed

section \<open>\<open>stash\<close>\<close>

lemma databaseUpdateData_deauthorize [simp]:
  "databaseUpdateData deauthorize r = r\<lparr>m_authorized := Some False\<rparr>"
  by (simp add: databaseUpdateData_def deauthorize_def no_params_def)

lemma rename_globally_no_name:
  "up_name ups = None \<Longrightarrow> rename_globally env nwid i org ups = ret ()"
  by (simp add: rename_globally_def truthy_str_def)

lemma deauthorize_fields [simp]:
  "up_name deauthorize = None" "invalidIPs env deauthorize = []" "has_database_fields deauthorize"
  "up_authorized deauthorize = Some False"
  by (simp_all add: deauthorize_def no_params_def invalidIPs_def has_database_fields_def)

lemma is_member_fields [simp]:
  "is_member i n (r\<lparr>m_authorized := a\<rparr>) = is_member i n r"
  "is_member i n (r\<lparr>m_deleted := d\<rparr>) = is_member i n r"
  "is_member i n (r\<lparr>m_permanentlyDeleted := p\<rparr>) = is_member i n r"
  "is_member i n (r\<lparr>m_name := nm\<rparr>) = is_member i n r"
  "is_member i n (r\<lparr>m_description := ds\<rparr>) = is_member i n r"
  by (simp_all add: is_member_def)

lemma map_id_cases [simp]: "map (\<lambda>x. if P x then x else x) xs = xs"
  by (induction xs) auto

lemma map_no_match:
  "find P xs = None \<Longrightarrow> map (\<lambda>x. if P x then f x else x) xs = xs"
  by (induction xs) (auto split: if_splits)


lemma networks_activityLog [simp]: "networks (w\<lparr>activityLog := l\<rparr>) = networks w"
  by simp

lemma Update_deauthorize:
  assumes allowed: "org_allowed env org"
  shows "members (snd (Update env nwid i False org deauthorize w)) =
           (if member_update_reply env nwid i False (Payload deauthorize) = None then members w
            else map (\<lambda>r. if is_member i nwid r then r\<lparr>m_authorized := Some False\<rparr> else r) (members w))"
    and "networks (snd (Update env nwid i False org deauthorize w)) = networks w"
    and "\<exists>rest. trace (snd (Update env nwid i False org deauthorize w))
           = trace w @ CtrlUpdate nwid i False (Payload deauthorize) # rest"
  by (auto simp: Update_def update_edited_network_def update_database_def rename_globally_no_name
        handler_defs when_org_allowed[OF allowed] activityLog_create_def
        member_update_def update_member_def notify_admins_run sendWebhook_def
        find_member_def emit_def updateMany_def map_no_match
        split: option.splits if_splits)

lemma stash_run:
  assumes allowed: "org_allowed env org" and net: "network_of w nwid = Some n"
  shows "members (snd (stash env org nwid i w)) =
           map (\<lambda>r. if is_member i nwid r then r\<lparr>m_deleted := Some True\<rparr> else r)
             (if member_update_reply env nwid i False (Payload deauthorize) = None then members w
              else map (\<lambda>r. if is_member i nwid r then r\<lparr>m_authorized := Some False\<rparr> else r) (members w))"
    and "take 1 (new_events w (snd (stash env org nwid i w))) = [CtrlUpdate nwid i False (Payload deauthorize)]"
    and "DbMember nwid i \<in> set (drop 1 (new_events w (snd (stash env org nwid i w))))"
proof -
  let ?w0 = "w\<lparr>activityLog := activityLog w @
        [(ActStashed i nwid, session_user env, if truthy_str org then org else None)]\<rparr>"
  obtain res w1 where upd: "Update env nwid i False org deauthorize ?w0 = (res, w1)"
    by (cases "Update env nwid i False org deauthorize ?w0")
  from Update_deauthorize[OF allowed, of nwid i ?w0] upd
  have m1: "members w1 = (if member_update_reply env nwid i False (Payload deauthorize) = None then members w
            else map (\<lambda>r. if is_member i nwid r then r\<lparr>m_authorized := Some False\<rparr> else r) (members w))"
    and n1: "networks w1 = networks w"
    and t1: "\<exists>rest. trace w1 = trace w @ CtrlUpdate nwid i False (Payload deauthorize) # rest"
    by simp_all
  from t1 obtain rest where t1': "trace w1 = trace w @ CtrlUpdate nwid i False (Payload deauthorize) # rest"
    by blast
  from net n1 have net1: "network_of w1 nwid = Some n"
    by (simp add: network_of_def)
  have run: "snd (stash env org nwid i w) =
      emit (Webhook MEMBER_CONFIG_CHANGED)
        (emit (DbMember nwid i) (updateMany (is_member i nwid) (\<lambda>r. r\<lparr>m_deleted := Some True\<rparr>) w1))"
    using upd net1
    by (auto simp: stash_def handler_defs when_org_allowed[OF allowed] activityLog_create_def
          mark_deleted_def sendWebhook_def split: sum.splits)
  show "members (snd (stash env org nwid i w)) =
           map (\<lambda>r. if is_member i nwid r then r\<lparr>m_deleted := Some True\<rparr> else r)
             (if member_update_reply env nwid i False (Payload deauthorize) = None then members w
              else map (\<lambda>r. if is_member i nwid r then r\<lparr>m_authorized := Some False\<rparr> else r) (members w))"
    unfolding run by (auto simp: m1)
  show "take 1 (new_events w (snd (stash env org nwid i w))) = [CtrlUpdate nwid i False (Payload deauthorize)]"
    unfolding run by (simp add: new_events_def t1')
  show "DbMember nwid i \<in> set (drop 1 (new_events w (snd (stash env org nwid i w))))"
    unfolding run by (simp add: new_events_def t1')
qed

text \<open>
  C9. For a caller the organization check lets through and a member whose row and
  network exist, \<open>stash\<close> first asks the controller to de-authorize the member
  (\<open>authorized = false\<close>, \<open>ipAssignments\<close>, \<open>tags\<close> and \<open>capabilities\<close> emptied): that
  call opens the run's trace, before any write to the member's row. Whether the
  controller accepts or rejects it, the write that marks the row follows, and the run
  ends with the member's row present and \<open>deleted = true\<close>.
\<close>

theorem stash_marks_deleted_after_deauthorize:
  assumes allowed: "org_allowed env org" and net: "network_of w nwid = Some n"
    and row: "find_member i nwid w = Some r"
  shows "take 1 (new_events w (snd (stash env org nwid i w))) = [CtrlUpdate nwid i False (Payload deauthorize)]
       \<and> up_authorized deauthorize = Some False \<and> up_ipAssignments deauthorize = Some []
       \<and> up_tags deauthorize = Some [] \<and> up_capabilities deauthorize = Some []
       \<and> DbMember nwid i \<in> set (drop 1 (new_events w (snd (stash env org nwid i w))))
       \<and> (\<exists>r'. find_member i nwid (snd (stash env org nwid i w)) = Some r' \<and> m_deleted r' = Some True)
       \<and> (\<forall>x \<in> set (members (snd (stash env org nwid i w))). is_member i nwid x \<longrightarrow> m_deleted x = Some True)
       \<and> length (members (snd (stash env org nwid i w))) = length (members w)"
proof -
  note run = stash_run[OF allowed net, of i]
  let ?M = "if member_update_reply env nwid i False (Payload deauthorize) = None then members w
            else map (\<lambda>r. if is_member i nwid r then r\<lparr>m_authorized := Some False\<rparr> else r) (members w)"
  have "\<exists>r0. find (is_member i nwid) ?M = Some r0"
    using row by (simp add: find_member_def find_map_update)
  then have found: "\<exists>r'. find_member i nwid (snd (stash env org nwid i w)) = Some r' \<and> m_deleted r' = Some True"
    unfolding find_member_def run(1) by (auto simp: find_map_update)
  have all: "\<forall>x \<in> set (members (snd (stash env org nwid i w))). is_member i nwid x \<longrightarrow> m_deleted x = Some True"
    unfolding run(1) by auto
  have len: "length (members (snd (stash env org nwid i w))) = length (members w)"
    unfolding run(1) by simp
  have params: "up_authorized deauthorize = Some False \<and> up_ipAssignments deauthorize = Some []
       \<and> up_tags deauthorize = Some [] \<and> up_capabilities deauthorize = Some []"
    by (simp add: deauthorize_def no_params_def)
  from run(2) run(3) found all len params show ?thesis by blast
qed

theorem stash_witness:
  "org_allowed offline None \<and> network_of home ''n1'' = Some (personal_network ''n1'')
   \<and> find_member ''aaaaaaaaaa'' ''n1'' home = Some (device ''aaaaaaaaaa'' ''n1'' True False False ''laptop'')
   \<and> fst (stash offline None ''n1'' ''aaaaaaaaaa'' home) = Inr None
   \<and> members (snd (stash offline None ''n1'' ''aaaaaaaaaa'' home))
       = [device ''aaaaaaaaaa'' ''n1'' True True False ''laptop'',
          device ''bbbbbbbbbb'' ''n1'' False True False ''phone'',
          device ''dddddddddd'' ''n1'' False True True ''tablet'',
          device ''aaaaaaaaaa'' ''n2'' True False False ''laptop'']
   \<and> take 1 (new_events home (snd (stash offline None ''n1'' ''aaaaaaaaaa'' home)))
       = [CtrlUpdate ''n1'' ''aaaaaaaaaa'' False (Payload deauthorize)]
   \<and> DbMember ''n1'' ''aaaaaaaaaa'' \<in> set (drop 1 (new_events home (snd (stash offline None ''n1'' ''aaaaaaaaaa'' home))))"
proof -
  have allowed: "org_allowed offline None"
    by (simp add: org_allowed_def)
  have net: "network_of home ''n1'' = Some (personal_network ''n1'')"
    by (simp add: network_of_def example_defs)
  have laptop: "find_member ''aaaaaaaaaa'' ''n1'' home = Some (device ''aaaaaaaaaa'' ''n1'' True False False ''laptop'')"
    by (simp add: find_member_def is_member_def example_defs)
  have res: "fst (stash offline None ''n1'' ''aaaaaaaaaa'' home) = Inr None"
    by (simp add: stash_def Update_def update_edited_network_def rename_globally_no_name run_defs
          mark_deleted_def offline_def example_defs)
  have mem: "members (snd (stash offline None ''n1'' ''aaaaaaaaaa'' home))
       = [device ''aaaaaaaaaa'' ''n1'' True True False ''laptop'',
          device ''bbbbbbbbbb'' ''n1'' False True False ''phone'',
          device ''dddddddddd'' ''n1'' False True True ''tablet'',
          device ''aaaaaaaaaa'' ''n2'' True False False ''laptop'']"
    by (simp add: stash_def Update_def update_edited_network_def rename_globally_no_name run_defs
          mark_deleted_def offline_def example_defs)
  from stash_marks_deleted_after_deauthorize[OF allowed net laptop] allowed net laptop res mem
  show ?thesis by blast
qed

section \<open>The permanently deleted state\<close>

lemma flags_kept_iff:
  "flags_kept w w' \<longleftrightarrow>
     (\<forall>r' \<in> set (members w'). \<exists>r \<in> set (members w). m_id r = m_id r' \<and> m_nwid r = m_nwid r'
        \<and> (m_deleted r = Some True \<longrightarrow> m_deleted r' = Some True)
        \<and> (m_permanentlyDeleted r = Some True \<longrightarrow> m_permanentlyDeleted r' = Some True))"
  by (simp add: flags_kept_def list_all_iff list_ex_iff)

lemma flags_kept_same: "members w' = members w \<Longrightarrow> flags_kept w w'"
  by (auto simp: flags_kept_iff)

lemma flags_kept_filter: "members w' = filter P (members w) \<Longrightarrow> flags_kept w w'"
  by (auto simp: flags_kept_iff)

lemma flags_kept_map:
  assumes "members w' = map g (members w)"
    and "\<And>r. m_id (g r) = m_id r \<and> m_nwid (g r) = m_nwid r
           \<and> (m_deleted r = Some True \<longrightarrow> m_deleted (g r) = Some True)
           \<and> (m_permanentlyDeleted r = Some True \<longrightarrow> m_permanentlyDeleted (g r) = Some True)"
  shows "flags_kept w w'"
  unfolding flags_kept_iff assms(1)
proof
  fix r' assume "r' \<in> set (map g (members w))"
  then obtain r where r: "r \<in> set (members w)" "r' = g r" by auto
  from assms(2)[of r] r show "\<exists>r \<in> set (members w). m_id r = m_id r' \<and> m_nwid r = m_nwid r'
        \<and> (m_deleted r = Some True \<longrightarrow> m_deleted r' = Some True)
        \<and> (m_permanentlyDeleted r = Some True \<longrightarrow> m_permanentlyDeleted r' = Some True)"
    by (intro bexI[of _ r]) simp_all
qed

lemma stash_refused:
  "\<not> org_allowed env org \<Longrightarrow> stash env org nwid i w = (Inl RoleRejected, w)"
  by (simp add: stash_def await_def when_org_refused)

lemma stash_members_any:
  assumes allowed: "org_allowed env org"
  shows "members (snd (stash env org nwid i w)) =
           (if network_of w nwid = None
            then (if member_update_reply env nwid i False (Payload deauthorize) = None then members w
                  else map (\<lambda>r. if is_member i nwid r then r\<lparr>m_authorized := Some False\<rparr> else r) (members w))
            else map (\<lambda>r. if is_member i nwid r then r\<lparr>m_deleted := Some True\<rparr> else r)
             (if member_update_reply env nwid i False (Payload deauthorize) = None then members w
              else map (\<lambda>r. if is_member i nwid r then r\<lparr>m_authorized := Some False\<rparr> else r) (members w)))"
proof (cases "network_of w nwid")
  case (Some n)
  then show ?thesis using stash_run(1)[OF allowed Some, of i] by simp
next
  case None
  let ?w0 = "w\<lparr>activityLog := activityLog w @
        [(ActStashed i nwid, session_user env, if truthy_str org then org else None)]\<rparr>"
  obtain res w1 where upd: "Update env nwid i False org deauthorize ?w0 = (res, w1)"
    by (cases "Update env nwid i False org deauthorize ?w0")
  from Update_deauthorize[OF allowed, of nwid i ?w0] upd
  have m1: "members w1 = (if member_update_reply env nwid i False (Payload deauthorize) = None then members w
            else map (\<lambda>r. if is_member i nwid r then r\<lparr>m_authorized := Some False\<rparr> else r) (members w))"
    and n1: "networks w1 = networks w"
    by simp_all
  from None n1 have net1: "network_of w1 nwid = None"
    by (simp add: network_of_def)
  have "members (snd (stash env org nwid i w)) = members w1"
    using upd net1
    by (auto simp: stash_def handler_defs when_org_allowed[OF allowed] activityLog_create_def
          mark_deleted_def sendWebhook_def split: sum.splits)
  with m1 None show ?thesis by simp
qed

lemma stash_keeps_flags: "flags_kept w (snd (stash env org nwid i w))"
proof (cases "org_allowed env org")
  case False
  then show ?thesis by (simp add: stash_refused flags_kept_same)
next
  case True
  let ?g1 = "\<lambda>r. if is_member i nwid r then r\<lparr>m_authorized := Some False\<rparr> else r"
  let ?g2 = "\<lambda>r. if is_member i nwid r then r\<lparr>m_deleted := Some True\<rparr> else r"
  have "members (snd (stash env org nwid i w)) = members w
      \<or> members (snd (stash env org nwid i w)) = map ?g1 (members w)
      \<or> members (snd (stash env org nwid i w)) = map ?g2 (members w)
      \<or> members (snd (stash env org nwid i w)) = map (?g2 \<circ> ?g1) (members w)"
    unfolding stash_members_any[OF True] by (simp del: map_map add: map_map[symmetric])
  then show ?thesis
  proof (elim disjE)
    assume "members (snd (stash env org nwid i w)) = members w"
    then show ?thesis by (rule flags_kept_same)
  next
    assume "members (snd (stash env org nwid i w)) = map ?g1 (members w)"
    then show ?thesis by (rule flags_kept_map) simp
  next
    assume "members (snd (stash env org nwid i w)) = map ?g2 (members w)"
    then show ?thesis by (rule flags_kept_map) simp
  next
    assume "members (snd (stash env org nwid i w)) = map (?g2 \<circ> ?g1) (members w)"
    then show ?thesis by (rule flags_kept_map) simp
  qed
qed

lemma delete_members_any:
  "members (snd (delete env org central nwid i w)) = members w
   \<or> members (snd (delete env org central nwid i w)) = filter (\<lambda>x. \<not> is_member i nwid x) (members w)
   \<or> members (snd (delete env org central nwid i w))
       = map (\<lambda>x. if is_member i nwid x then x\<lparr>m_permanentlyDeleted := Some True\<rparr> else x) (members w)"
proof (cases "org_allowed env org")
  case False
  then show ?thesis by (simp add: delete_def await_def when_org_refused)
next
  case True
  show ?thesis
    by (auto simp: delete_def handler_defs when_org_allowed[OF True] activityLog_create_def Let_def
        member_delete_def delete_row_def update_member_def notify_admins_run sendWebhook_def
        find_member_def emit_def
        split: option.splits)
qed

lemma delete_keeps_flags: "flags_kept w (snd (delete env org central nwid i w))"
  using delete_members_any[of env org central nwid i w]
proof (elim disjE)
  assume "members (snd (delete env org central nwid i w)) = members w"
  then show ?thesis by (rule flags_kept_same)
next
  assume "members (snd (delete env org central nwid i w)) = filter (\<lambda>x. \<not> is_member i nwid x) (members w)"
  then show ?thesis by (rule flags_kept_filter)
next
  assume "members (snd (delete env org central nwid i w))
       = map (\<lambda>x. if is_member i nwid x then x\<lparr>m_permanentlyDeleted := Some True\<rparr> else x) (members w)"
  then show ?thesis by (rule flags_kept_map) simp
qed

lemma bulkDeleteStashed_keeps_flags: "flags_kept w (snd (bulkDeleteStashed env nwid org w))"
proof (cases "fst (bulkDeleteStashed env nwid org w)")
  case (Inl e)
  then show ?thesis by (simp add: bulkDeleteStashed_members flags_kept_same)
next
  case (Inr c)
  then have "members (snd (bulkDeleteStashed env nwid org w)) = map (mark_stashed nwid) (members w)"
    by (simp add: bulkDeleteStashed_members)
  then show ?thesis
    by (rule flags_kept_map) (simp add: mark_stashed_def)
qed

text \<open>
  C3, as amended. Of the lifecycle operations, \<open>stash\<close>, \<open>delete\<close> and
  \<open>bulkDeleteStashed\<close> never move a row marked \<open>permanentlyDeleted\<close> (or \<open>deleted\<close>)
  back to the active state: whatever their outcome, every row they leave belongs to a
  pair \<open>(id, nwid)\<close> that had a row before, and a flag that was \<open>true\<close> is still
  \<open>true\<close>. \<open>create\<close>, the explicit re-add, on a non-central network resets the existing
  row of the pair, stashed or permanently deleted alike, to \<open>deleted = false\<close> and
  \<open>permanentlyDeleted = false\<close>.
\<close>

theorem permanently_deleted_stays_unless_readded:
  "flags_kept w (snd (stash env org nwid i w))
   \<and> flags_kept w (snd (delete env org central nwid i w))
   \<and> flags_kept w (snd (bulkDeleteStashed env nwid org w))
   \<and> (isValidZeroTierNetworkId i \<and> org_allowed env org \<and> find_member i nwid w = Some r \<longrightarrow>
        (\<exists>r'. find_member i nwid (snd (create env org i nwid False w)) = Some r'
             \<and> m_deleted r' = Some False \<and> m_permanentlyDeleted r' = Some False))"
proof -
  have readd: "\<exists>r'. find_member i nwid (snd (create env org i nwid False w)) = Some r'
             \<and> m_deleted r' = Some False \<and> m_permanentlyDeleted r' = Some False"
    if "isValidZeroTierNetworkId i" "org_allowed env org" "find_member i nwid w = Some r"
  proof -
    from create_existing[OF that] obtain name where
      mem: "members (snd (create env org i nwid False w))
            = map (\<lambda>x. if is_member i nwid x
                        then x\<lparr>m_deleted := Some False, m_permanentlyDeleted := Some False, m_name := name\<rparr>
                        else x) (members w)"
      by blast
    have keep: "is_member i nwid (x\<lparr>m_deleted := Some False, m_permanentlyDeleted := Some False, m_name := name\<rparr>)
                = is_member i nwid x" for x
      by (simp add: is_member_def)
    from that(3) show ?thesis
      by (simp add: find_member_def mem find_map_update[where P="is_member i nwid", OF keep])
  qed
  with stash_keeps_flags delete_keeps_flags bulkDeleteStashed_keeps_flags show ?thesis
    by blast
qed


theorem permanently_deleted_witness:
  "flags_kept home (snd (stash session None ''n1'' ''dddddddddd'' home))
   \<and> flags_kept home (snd (delete session None False ''n1'' ''dddddddddd'' home))
   \<and> flags_kept home (snd (bulkDeleteStashed session ''n1'' None home))
   \<and> find_member ''dddddddddd'' ''n1'' (snd (delete session None False ''n1'' ''dddddddddd'' home))
        = Some (device ''dddddddddd'' ''n1'' False True True ''tablet'')
   \<and> isValidZeroTierNetworkId ''bbbbbbbbbb'' \<and> org_allowed session None
   \<and> find_member ''bbbbbbbbbb'' ''n1'' home = Some (device ''bbbbbbbbbb'' ''n1'' False True False ''phone'')
   \<and> (\<exists>r'. find_member ''bbbbbbbbbb'' ''n1'' (snd (create session None ''bbbbbbbbbb'' ''n1'' False home)) = Some r'
          \<and> m_deleted r' = Some False \<and> m_permanentlyDeleted r' = Some False)"
proof -
  have valid: "isValidZeroTierNetworkId ''bbbbbbbbbb''"
    by (simp add: isValidZeroTierNetworkId_def is_hex_char_def)
  have allowed: "org_allowed session None"
    by (simp add: org_allowed_def)
  have phone: "find_member ''bbbbbbbbbb'' ''n1'' home = Some (device ''bbbbbbbbbb'' ''n1'' False True False ''phone'')"
    by (simp add: find_member_def is_member_def example_defs)
  have tablet: "find_member ''dddddddddd'' ''n1'' (snd (delete session None False ''n1'' ''dddddddddd'' home))
        = Some (device ''dddddddddd'' ''n1'' False True True ''tablet'')"
    by (simp add: delete_def run_defs example_defs)
  from permanently_deleted_stays_unless_readded[of home session None "''n1''" "''dddddddddd''" False]
  have kept: "flags_kept home (snd (stash session None ''n1'' ''dddddddddd'' home))
   \<and> flags_kept home (snd (delete session None False ''n1'' ''dddddddddd'' home))
   \<and> flags_kept home (snd (bulkDeleteStashed session ''n1'' None home))"
    by blast
  from permanently_deleted_stays_unless_readded[of home session None "''n1''" "''bbbbbbbbbb''" False] valid allowed phone
  have "\<exists>r'. find_member ''bbbbbbbbbb'' ''n1'' (snd (create session None ''bbbbbbbbbb'' ''n1'' False home)) = Some r'
          \<and> m_deleted r' = Some False \<and> m_permanentlyDeleted r' = Some False"
    by blast
  with kept tablet valid allowed phone show ?thesis by blast
qed

text \<open>
  C3 as stated fails: \<open>create\<close> on the permanently deleted tablet of \<open>home\<close> makes its
  row active again.
\<close>

theorem create_revives_permanently_deleted:
  "find_member ''dddddddddd'' ''n1'' home = Some (device ''dddddddddd'' ''n1'' False True True ''tablet'')
   \<and> fst (create session None ''dddddddddd'' ''n1'' False home)
        = Inr (UpdatedMember (device ''dddddddddd'' ''n1'' False False False ''tablet''))
   \<and> find_member ''dddddddddd'' ''n1'' (snd (create session None ''dddddddddd'' ''n1'' False home))
        = Some (device ''dddddddddd'' ''n1'' False False False ''tablet'')"
  by (simp add: create_def run_defs readd_name_def user_renames_globally_def existing_name_def
        in_personal_scope_def isValidZeroTierNetworkId_def is_hex_char_def example_defs)

section \<open>\<open>Update\<close>: the global rename\<close>

lemmas update_handler_defs = Update_def update_edited_network_def update_database_def rename_globally_def
  other_networks_def in_personal_scope_def in_org_scope_def user_renames_globally_def
  org_renames_globally_def upsert_organizationSettings_def invalidIPs_def set_name_def
  set_name_description_def databaseUpdateData_def has_database_fields_def no_params_def

lemma rename_in_ok:
  assumes replies: "\<forall>n \<in> set ns. member_update_reply env n mid False (Payload ups) \<noteq> None"
    and keys: "\<And>r. m_id (f r) = m_id r \<and> m_nwid (f r) = m_nwid r \<and> m_deleted (f r) = m_deleted r"
    and idem: "\<And>r. f (f r) = f r"
  shows "fst (rename_in env mid ups f ns w) = Inr ()
       \<and> members (snd (rename_in env mid ups f ns w))
           = map (\<lambda>r. if m_id r = mid \<and> m_nwid r \<in> set ns \<and> m_deleted r = Some False then f r else r) (members w)
       \<and> trace (snd (rename_in env mid ups f ns w)) = trace w @ fan_out mid ups ns"
  using replies
proof (induction ns arbitrary: w)
  case Nil
  then show ?case by (simp add: ret_def fan_out_def)
next
  case (Cons n ns)
  let ?w1 = "emit (DbMember n mid)
              (updateMany (\<lambda>r. is_member mid n r \<and> m_deleted r = Some False) f
                 (emit (CtrlUpdate n mid False (Payload ups)) w))"
  from Cons.prems have step: "rename_in env mid ups f (n # ns) w = rename_in env mid ups f ns ?w1"
    by (auto simp: await_def member_update_def split: option.splits)
  from Cons.prems have "\<forall>n \<in> set ns. member_update_reply env n mid False (Payload ups) \<noteq> None"
    by simp
  note IH = Cons.IH[OF this, of ?w1]
  have mem: "map (\<lambda>r. if m_id r = mid \<and> m_nwid r \<in> set ns \<and> m_deleted r = Some False then f r else r) (members ?w1)
        = map (\<lambda>r. if m_id r = mid \<and> m_nwid r \<in> set (n # ns) \<and> m_deleted r = Some False then f r else r) (members w)"
    using keys idem by (auto simp: is_member_def)
  have tr: "trace ?w1 @ fan_out mid ups ns = trace w @ fan_out mid ups (n # ns)"
    by (simp add: fan_out_def)
  from IH show ?case
    unfolding step mem tr by simp
qed


lemma set_name_keys:
  "m_id (set_name ups r) = m_id r \<and> m_nwid (set_name ups r) = m_nwid r \<and> m_deleted (set_name ups r) = m_deleted r"
  "set_name ups (set_name ups r) = set_name ups r"
  by (simp_all add: set_name_def)

lemma set_name_description_keys:
  "m_id (set_name_description ups r) = m_id r \<and> m_nwid (set_name_description ups r) = m_nwid r
     \<and> m_deleted (set_name_description ups r) = m_deleted r"
  "set_name_description ups (set_name_description ups r) = set_name_description ups r"
  by (simp_all add: set_name_description_def split: option.splits)

lemma renamed_keys:
  "m_id (renamed org ups r) = m_id r \<and> m_nwid (renamed org ups r) = m_nwid r
     \<and> m_deleted (renamed org ups r) = m_deleted r"
  "renamed org ups (renamed org ups r) = renamed org ups r"
  "m_name (renamed org ups r) = up_name ups"
  by (auto simp: renamed_def set_name_keys set_name_description_keys set_name_def set_name_description_def
        split: option.splits)

lemma org_renames_after_upsert [simp]:
  "org_renames_globally x (upsert_organizationSettings x w) = org_renames_globally x w"
  by (simp add: org_renames_globally_def upsert_organizationSettings_def truthy_def split: option.splits)

lemma upsert_tables [simp]:
  "members (upsert_organizationSettings x w) = members w"
  "networks (upsert_organizationSettings x w) = networks w"
  "trace (upsert_organizationSettings x w) = trace w"
  by (simp_all add: upsert_organizationSettings_def split: option.splits)

lemma in_org_scope_upsert [simp]:
  "in_org_scope x (upsert_organizationSettings y w) = in_org_scope x w"
  by (rule ext) (simp add: in_org_scope_def network_of_def)

lemma other_networks_upsert [simp]:
  "other_networks scope mid nwid (upsert_organizationSettings y w) = other_networks scope mid nwid w"
  by (simp add: other_networks_def)

lemma rename_globally_off:
  assumes "\<not> renames_globally env org w"
  shows "fst (rename_globally env nwid mid org ups w) = Inr ()
       \<and> members (snd (rename_globally env nwid mid org ups w)) = members w
       \<and> trace (snd (rename_globally env nwid mid org ups w)) = trace w"
  using assms
  by (auto simp: rename_globally_def renames_globally_def ret_def truthy_str_def Let_def
        split: option.splits if_splits)

lemma rename_globally_on:
  assumes name: "truthy_str (up_name ups)"
    and on: "renames_globally env org w"
    and replies: "\<forall>n \<in> set (other_networks (ownership_scope env org w) mid nwid w).
                    member_update_reply env n mid False (Payload ups) \<noteq> None"
  shows "fst (rename_globally env nwid mid org ups w) = Inr ()
       \<and> members (snd (rename_globally env nwid mid org ups w))
           = map (\<lambda>r. if m_id r = mid \<and> m_nwid r \<in> set (other_networks (ownership_scope env org w) mid nwid w)
                          \<and> m_deleted r = Some False
                       then renamed org ups r else r) (members w)
       \<and> trace (snd (rename_globally env nwid mid org ups w))
           = trace w @ fan_out mid ups (other_networks (ownership_scope env org w) mid nwid w)"
proof (cases "truthy_str org")
  case False
  then have scope: "ownership_scope env org w = in_personal_scope env w"
    and f: "renamed org ups = set_name_description ups"
    and u: "user_renames_globally env w"
    using on by (auto simp: ownership_scope_def renamed_def renames_globally_def truthy_str_def split: option.splits)
  have run: "rename_globally env nwid mid org ups w
      = rename_in env mid ups (set_name_description ups) (other_networks (in_personal_scope env w) mid nwid w) w"
    using name False u by (simp add: rename_globally_def)
  from replies show ?thesis
    unfolding run scope f
    by (intro rename_in_ok set_name_description_keys)
next
  case True
  then obtain x where x: "org = Some x" "x \<noteq> []"
    by (auto simp: truthy_str_def split: option.splits)
  then have scope: "ownership_scope env org w = in_org_scope x w"
    and f: "renamed org ups = set_name ups"
    and o: "org_renames_globally x w"
    using on by (auto simp: ownership_scope_def renamed_def renames_globally_def)
  have run: "rename_globally env nwid mid org ups w
      = rename_in env mid ups (set_name ups) (other_networks (in_org_scope x w) mid nwid w)
          (upsert_organizationSettings x w)"
    using name True x o by (simp add: rename_globally_def Let_def)
  from replies have "\<forall>n \<in> set (other_networks (in_org_scope x w) mid nwid w).
                    member_update_reply env n mid False (Payload ups) \<noteq> None"
    unfolding scope .
  then have "fst (rename_in env mid ups (set_name ups) (other_networks (in_org_scope x w) mid nwid w)
                    (upsert_organizationSettings x w)) = Inr ()
       \<and> members (snd (rename_in env mid ups (set_name ups) (other_networks (in_org_scope x w) mid nwid w)
                    (upsert_organizationSettings x w)))
           = map (\<lambda>r. if m_id r = mid \<and> m_nwid r \<in> set (other_networks (in_org_scope x w) mid nwid w)
                          \<and> m_deleted r = Some False
                       then set_name ups r else r) (members (upsert_organizationSettings x w))
       \<and> trace (snd (rename_in env mid ups (set_name ups) (other_networks (in_org_scope x w) mid nwid w)
                    (upsert_organizationSettings x w)))
           = trace (upsert_organizationSettings x w) @ fan_out mid ups (other_networks (in_org_scope x w) mid nwid w)"
    by (intro rename_in_ok set_name_keys)
  then show ?thesis
    unfolding run scope f by simp
qed

lemma filter_others_map:
  "(\<And>r. m_nwid (g r) = m_nwid r) \<Longrightarrow>
   filter (\<lambda>r. m_nwid r \<noteq> nwid) (map (\<lambda>r. if is_member mid nwid r then g r else r) rows)
     = filter (\<lambda>r. m_nwid r \<noteq> nwid) rows"
  by (induction rows) (auto simp: is_member_def)

lemma databaseUpdateData_nwid [simp]: "m_nwid (databaseUpdateData ups r) = m_nwid r"
  by (simp add: databaseUpdateData_def)

lemma update_database_local:
  "fst (update_database nwid mid ups w) = Inr ()
   \<and> filter (\<lambda>r. m_nwid r \<noteq> nwid) (members (snd (update_database nwid mid ups w)))
       = filter (\<lambda>r. m_nwid r \<noteq> nwid) (members w)
   \<and> (trace (snd (update_database nwid mid ups w)) = trace w
        \<or> trace (snd (update_database nwid mid ups w)) = trace w @ [DbMember nwid mid])"
  by (simp add: update_database_def update_member_def await_def ret_def filter_others_map
        split: option.splits)

lemma notify_deleted_local:
  "\<exists>evs. (case up_authorized ups of None \<Rightarrow> ret ()
          | Some a \<Rightarrow> if a then ret () else notify_admins env org NODE_DELETED) w
        = (Inr (), w\<lparr>trace := trace w @ evs\<rparr>) \<and> filter (elsewhere nwid) evs = []"
proof (cases "up_authorized ups = Some False \<and> truthy_str org")
  case True
  then have "(case up_authorized ups of None \<Rightarrow> ret ()
          | Some a \<Rightarrow> if a then ret () else notify_admins env org NODE_DELETED) w
        = (Inr (), w\<lparr>trace := trace w @ [AdminNotification NODE_DELETED]\<rparr>)"
    by (auto simp: notify_admins_run emit_def truthy_str_def split: option.splits)
  then show ?thesis by (auto simp: elsewhere_def)
next
  case False
  then have "(case up_authorized ups of None \<Rightarrow> ret ()
          | Some a \<Rightarrow> if a then ret () else notify_admins env org NODE_DELETED) w
        = (Inr (), w\<lparr>trace := trace w @ []\<rparr>)"
    by (auto simp: notify_admins_run ret_def truthy_str_def split: option.splits)
  then show ?thesis by (intro exI[of _ "[]"]) simp
qed

lemma update_edited_network_local:
  "filter (\<lambda>r. m_nwid r \<noteq> nwid) (members (snd (update_edited_network env nwid mid central org ups w)))
     = filter (\<lambda>r. m_nwid r \<noteq> nwid) (members w)
   \<and> (\<exists>evs. trace (snd (update_edited_network env nwid mid central org ups w)) = trace w @ evs
            \<and> filter (elsewhere nwid) evs = [])"
proof (cases "invalidIPs env ups \<noteq> []
              \<or> member_update_reply env nwid mid central (if central then Config ups else Payload ups) = None")
  case True
  then show ?thesis
    by (auto simp: update_edited_network_def handler_defs member_update_def emit_def elsewhere_def)
next
  case False
  then obtain m where reply: "member_update_reply env nwid mid central (if central then Config ups else Payload ups) = Some m"
    and valid: "invalidIPs env ups = []"
    by auto
  let ?w1 = "emit (CtrlUpdate nwid mid central (if central then Config ups else Payload ups)) w"
  obtain w2 where db: "(if central then ret () else update_database nwid mid ups) ?w1 = (Inr (), w2)"
    and m2: "filter (\<lambda>r. m_nwid r \<noteq> nwid) (members w2) = filter (\<lambda>r. m_nwid r \<noteq> nwid) (members w)"
    and t2: "trace w2 = trace ?w1 \<or> trace w2 = trace ?w1 @ [DbMember nwid mid]"
    using update_database_local[of nwid mid ups ?w1]
    by (cases central; cases "update_database nwid mid ups ?w1") (auto simp: ret_def)
  let ?w3 = "emit (Webhook MEMBER_CONFIG_CHANGED) w2"
  from notify_deleted_local[where ups=ups and env=env and org=org and w="?w3" and nwid=nwid] obtain evs where
    sent: "(case up_authorized ups of None \<Rightarrow> ret ()
          | Some a \<Rightarrow> if a then ret () else notify_admins env org NODE_DELETED) ?w3
        = (Inr (), ?w3\<lparr>trace := trace ?w3 @ evs\<rparr>)" and evs: "filter (elsewhere nwid) evs = []"
    by blast
  have run: "snd (update_edited_network env nwid mid central org ups w)
      = (if webhook_ok env MEMBER_CONFIG_CHANGED then ?w3\<lparr>trace := trace ?w3 @ evs\<rparr> else ?w3)"
    using valid reply db sent
    by (simp add: update_edited_network_def handler_defs member_update_def sendWebhook_def)
  from t2 show ?thesis
    unfolding run using m2 evs by (auto simp: elsewhere_def)
qed

lemma Update_refused:
  "\<not> org_allowed env org \<Longrightarrow> Update env nwid mid central org ups w = (Inl RoleRejected, w)"
  by (simp add: Update_def await_def when_org_refused)

lemma logged_tables [simp]:
  "members (logged env a org w) = members w"
  "networks (logged env a org w) = networks w"
  "trace (logged env a org w) = trace w"
  "userOptions (logged env a org w) = userOptions w"
  "organizationSettings (logged env a org w) = organizationSettings w"
  by (simp_all add: logged_def)

lemma logged_settings [simp]:
  "renames_globally env org (logged env a org' w) = renames_globally env org w"
  "ownership_scope env org (logged env a org' w) = ownership_scope env org w"
  "other_networks scope mid nwid (logged env a org' w) = other_networks scope mid nwid w"
  by (auto simp: renames_globally_def ownership_scope_def other_networks_def user_renames_globally_def
        org_renames_globally_def in_personal_scope_def in_org_scope_def network_of_def fun_eq_iff
        split: option.splits)

lemma Update_allowed:
  assumes "org_allowed env org"
  shows "Update env nwid mid central org ups w =
     (case rename_globally env nwid mid org ups (logged env (ActUpdated mid nwid ups) org w) of
        (Inl e, w1) \<Rightarrow> (Inl e, w1)
      | (Inr u, w1) \<Rightarrow> update_edited_network env nwid mid central org ups w1)"
  by (simp add: Update_def await_def when_org_allowed[OF assms] activityLog_create_def logged_def)

lemma targets_iff:
  assumes "r \<in> set rows"
  shows "(m_id r = mid \<and> m_nwid r \<in> set (map m_nwid (filter (\<lambda>r. m_id r = mid \<and> m_deleted r = Some False \<and>
                             m_nwid r \<noteq> nwid \<and> scope (m_nwid r)) rows)) \<and> m_deleted r = Some False)
       \<longleftrightarrow> (m_id r = mid \<and> m_deleted r = Some False \<and> m_nwid r \<noteq> nwid \<and> scope (m_nwid r))"
  using assms by auto

lemma map_targets:
  "map (\<lambda>r. if m_id r = mid \<and> m_nwid r \<in> set (other_networks scope mid nwid w) \<and> m_deleted r = Some False
             then f r else r) (members w)
   = map (\<lambda>r. if m_id r = mid \<and> m_deleted r = Some False \<and> m_nwid r \<noteq> nwid \<and> scope (m_nwid r)
               then f r else r) (members w)"
  unfolding other_networks_def
  by (rule map_cong[OF refl]) (simp only: targets_iff)

lemma filter_others_renamed:
  assumes "\<And>r. m_nwid (f r) = m_nwid r"
  shows "filter (\<lambda>r. m_nwid r \<noteq> nwid)
           (map (\<lambda>r. if m_id r = mid \<and> m_deleted r = Some False \<and> m_nwid r \<noteq> nwid \<and> scope (m_nwid r)
                      then f r else r) rows)
       = map (\<lambda>r. if m_id r = mid \<and> m_deleted r = Some False \<and> scope (m_nwid r) then f r else r)
           (filter (\<lambda>r. m_nwid r \<noteq> nwid) rows)"
  using assms by (induction rows) auto

lemma fan_out_elsewhere:
  "\<forall>n \<in> set ns. n \<noteq> nwid \<Longrightarrow> filter (elsewhere nwid) (fan_out mid ups ns) = fan_out mid ups ns"
  by (induction ns) (auto simp: fan_out_def elsewhere_def)

lemma other_networks_not_edited: "\<forall>n \<in> set (other_networks scope mid nwid w). n \<noteq> nwid"
  by (auto simp: other_networks_def)

text \<open>
  C6, as amended. For every \<open>Update\<close> call that sets a non-empty name: when the
  global-naming setting that governs the call is disabled, no row of another network
  is changed and no controller call or member write is made on another network; when
  it is enabled, the caller passes the organization check and the controller accepts
  each update, the rows of the other networks change exactly where a non-stashed
  (\<open>deleted = false\<close>) member with the same identifier sits in a network of the same
  ownership scope. There the name is written, and on each such network, and on no
  other network than these and the edited one, a controller update is followed by a
  member write.
\<close>

theorem Update_global_rename:
  assumes name: "up_name ups = Some nm" "nm \<noteq> []"
  shows "(\<not> renames_globally env org w \<longrightarrow>
            filter (\<lambda>r. m_nwid r \<noteq> nwid) (members (snd (Update env nwid mid central org ups w)))
              = filter (\<lambda>r. m_nwid r \<noteq> nwid) (members w)
          \<and> filter (elsewhere nwid) (new_events w (snd (Update env nwid mid central org ups w))) = [])
       \<and> (renames_globally env org w \<and> org_allowed env org
            \<and> (\<forall>n \<in> set (other_networks (ownership_scope env org w) mid nwid w).
                  member_update_reply env n mid False (Payload ups) \<noteq> None) \<longrightarrow>
            filter (\<lambda>r. m_nwid r \<noteq> nwid) (members (snd (Update env nwid mid central org ups w)))
              = map (\<lambda>r. if m_id r = mid \<and> m_deleted r = Some False \<and> ownership_scope env org w (m_nwid r)
                          then renamed org ups r else r)
                  (filter (\<lambda>r. m_nwid r \<noteq> nwid) (members w))
          \<and> m_name \<circ> renamed org ups = (\<lambda>r. Some nm)
          \<and> filter (elsewhere nwid) (new_events w (snd (Update env nwid mid central org ups w)))
              = fan_out mid ups (other_networks (ownership_scope env org w) mid nwid w))"
proof (intro conjI impI)
  let ?w0 = "logged env (ActUpdated mid nwid ups) org w"
  let ?w' = "snd (Update env nwid mid central org ups w)"
  assume off: "\<not> renames_globally env org w"
  have "filter (\<lambda>r. m_nwid r \<noteq> nwid) (members ?w') = filter (\<lambda>r. m_nwid r \<noteq> nwid) (members w)
      \<and> filter (elsewhere nwid) (new_events w ?w') = []"
  proof (cases "org_allowed env org")
    case False
    then show ?thesis by (simp add: Update_refused new_events_def)
  next
    case True
    obtain res w1 where rg: "rename_globally env nwid mid org ups ?w0 = (res, w1)"
      by (cases "rename_globally env nwid mid org ups ?w0")
    from off have "\<not> renames_globally env org ?w0" by simp
    from rename_globally_off[OF this, of nwid mid ups] rg
    have r1: "res = Inr ()" "members w1 = members w" "trace w1 = trace w"
      by simp_all
    have run: "?w' = snd (update_edited_network env nwid mid central org ups w1)"
      using rg r1(1) by (simp add: Update_allowed[OF True])
    from update_edited_network_local[of nwid env mid central org ups w1] show ?thesis
      unfolding run by (auto simp: r1 new_events_def)
  qed
  then show "filter (\<lambda>r. m_nwid r \<noteq> nwid) (members ?w') = filter (\<lambda>r. m_nwid r \<noteq> nwid) (members w)"
    and "filter (elsewhere nwid) (new_events w ?w') = []"
    by simp_all
next
  let ?w0 = "logged env (ActUpdated mid nwid ups) org w"
  let ?w' = "snd (Update env nwid mid central org ups w)"
  let ?scope = "ownership_scope env org w"
  assume on: "renames_globally env org w \<and> org_allowed env org
            \<and> (\<forall>n \<in> set (other_networks ?scope mid nwid w).
                  member_update_reply env n mid False (Payload ups) \<noteq> None)"
  obtain res w1 where rg: "rename_globally env nwid mid org ups ?w0 = (res, w1)"
    by (cases "rename_globally env nwid mid org ups ?w0")
  from name have truthy_name: "truthy_str (up_name ups)"
    by (simp add: truthy_str_def)
  from on have on0: "renames_globally env org ?w0"
    and replies0: "\<forall>n \<in> set (other_networks (ownership_scope env org ?w0) mid nwid ?w0).
                  member_update_reply env n mid False (Payload ups) \<noteq> None"
    by simp_all
  from rename_globally_on[OF truthy_name on0 replies0] rg
  have r1: "res = Inr ()"
    and m1: "members w1 = map (\<lambda>r. if m_id r = mid \<and> m_nwid r \<in> set (other_networks ?scope mid nwid w)
                          \<and> m_deleted r = Some False
                       then renamed org ups r else r) (members w)"
    and t1: "trace w1 = trace w @ fan_out mid ups (other_networks ?scope mid nwid w)"
    by simp_all
  have run: "?w' = snd (update_edited_network env nwid mid central org ups w1)"
    using rg r1 on by (simp add: Update_allowed)
  from update_edited_network_local[of nwid env mid central org ups w1] obtain evs where
    m2: "filter (\<lambda>r. m_nwid r \<noteq> nwid) (members ?w') = filter (\<lambda>r. m_nwid r \<noteq> nwid) (members w1)"
    and t2: "trace ?w' = trace w1 @ evs" "filter (elsewhere nwid) evs = []"
    unfolding run by blast
  show "filter (\<lambda>r. m_nwid r \<noteq> nwid) (members ?w')
              = map (\<lambda>r. if m_id r = mid \<and> m_deleted r = Some False \<and> ?scope (m_nwid r)
                          then renamed org ups r else r)
                  (filter (\<lambda>r. m_nwid r \<noteq> nwid) (members w))"
    unfolding m2 m1 map_targets
    by (rule filter_others_renamed) (simp add: renamed_keys)
  show "m_name \<circ> renamed org ups = (\<lambda>r. Some nm)"
    using name by (simp add: fun_eq_iff renamed_keys)
  show "filter (elsewhere nwid) (new_events w ?w') = fan_out mid ups (other_networks ?scope mid nwid w)"
    using t2 by (simp add: new_events_def t1 fan_out_elsewhere[OF other_networks_not_edited])
qed

theorem Update_global_rename_witness:
  "up_name rename_desktop = Some ''desktop'' \<and> ''desktop'' \<noteq> []
   \<and> \<not> renames_globally session None home_local
   \<and> filter (\<lambda>r. m_nwid r \<noteq> ''n1'') (members (snd (Update session ''n1'' ''aaaaaaaaaa'' False None rename_desktop home_local)))
       = [device ''aaaaaaaaaa'' ''n2'' True False False ''laptop'']
   \<and> filter (elsewhere ''n1'') (new_events home_local (snd (Update session ''n1'' ''aaaaaaaaaa'' False None rename_desktop home_local))) = []
   \<and> renames_globally session None home \<and> org_allowed session None
   \<and> other_networks (ownership_scope session None home) ''aaaaaaaaaa'' ''n1'' home = [''n2'']
   \<and> member_update_reply session ''n2'' ''aaaaaaaaaa'' False (Payload rename_desktop) \<noteq> None
   \<and> filter (\<lambda>r. m_nwid r \<noteq> ''n1'') (members (snd (Update session ''n1'' ''aaaaaaaaaa'' False None rename_desktop home)))
       = [device ''aaaaaaaaaa'' ''n2'' True False False ''desktop'']
   \<and> filter (elsewhere ''n1'') (new_events home (snd (Update session ''n1'' ''aaaaaaaaaa'' False None rename_desktop home)))
       = [CtrlUpdate ''n2'' ''aaaaaaaaaa'' False (Payload rename_desktop), DbMember ''n2'' ''aaaaaaaaaa'']
   \<and> renames_globally session (Some ''acme'') office \<and> org_allowed session (Some ''acme'')
   \<and> other_networks (ownership_scope session (Some ''acme'') office) ''aaaaaaaaaa'' ''o1'' office = [''o2'']
   \<and> filter (\<lambda>r. m_nwid r \<noteq> ''o1'') (members (snd (Update session ''o1'' ''aaaaaaaaaa'' False (Some ''acme'') rename_desktop office)))
       = [device ''aaaaaaaaaa'' ''o2'' True False False ''desktop'']
   \<and> filter (elsewhere ''o1'') (new_events office (snd (Update session ''o1'' ''aaaaaaaaaa'' False (Some ''acme'') rename_desktop office)))
       = [CtrlUpdate ''o2'' ''aaaaaaaaaa'' False (Payload rename_desktop), DbMember ''o2'' ''aaaaaaaaaa'']"
proof -
  have name: "up_name rename_desktop = Some ''desktop''" "''desktop'' \<noteq> []"
    by (simp_all add: rename_desktop_def no_params_def)
  have off: "\<not> renames_globally session None home_local"
    by (simp add: renames_globally_def user_renames_globally_def home_local_def example_defs)
  have on: "renames_globally session None home"
    by (simp add: renames_globally_def user_renames_globally_def truthy_def example_defs)
  have allowed: "org_allowed session None"
    by (simp add: org_allowed_def)
  have targets: "other_networks (ownership_scope session None home) ''aaaaaaaaaa'' ''n1'' home = [''n2'']"
    by (simp add: other_networks_def ownership_scope_def in_personal_scope_def network_of_def example_defs)
  have reply: "member_update_reply session ''n2'' ''aaaaaaaaaa'' False (Payload rename_desktop) \<noteq> None"
    by (simp add: session_def)
  have others_local: "filter (\<lambda>r. m_nwid r \<noteq> ''n1'') (members home_local) = [device ''aaaaaaaaaa'' ''n2'' True False False ''laptop'']"
    by (simp add: home_local_def example_defs)
  have others: "map (\<lambda>r. if m_id r = ''aaaaaaaaaa'' \<and> m_deleted r = Some False \<and> ownership_scope session None home (m_nwid r)
                          then renamed None rename_desktop r else r)
                  (filter (\<lambda>r. m_nwid r \<noteq> ''n1'') (members home))
                = [device ''aaaaaaaaaa'' ''n2'' True False False ''desktop'']"
    by (simp add: ownership_scope_def in_personal_scope_def network_of_def renamed_def
          set_name_description_def rename_desktop_def no_params_def example_defs)
  have on_org: "renames_globally session (Some ''acme'') office"
    by (simp add: renames_globally_def org_renames_globally_def truthy_def example_defs)
  have allowed_org: "org_allowed session (Some ''acme'')"
    by (simp add: org_allowed_def session_def)
  have targets_org: "other_networks (ownership_scope session (Some ''acme'') office) ''aaaaaaaaaa'' ''o1'' office = [''o2'']"
    by (simp add: other_networks_def ownership_scope_def in_org_scope_def network_of_def example_defs)
  have reply_org: "member_update_reply session ''o2'' ''aaaaaaaaaa'' False (Payload rename_desktop) \<noteq> None"
    by (simp add: session_def)
  have others_org: "map (\<lambda>r. if m_id r = ''aaaaaaaaaa'' \<and> m_deleted r = Some False
                              \<and> ownership_scope session (Some ''acme'') office (m_nwid r)
                          then renamed (Some ''acme'') rename_desktop r else r)
                  (filter (\<lambda>r. m_nwid r \<noteq> ''o1'') (members office))
                = [device ''aaaaaaaaaa'' ''o2'' True False False ''desktop'']"
    by (simp add: ownership_scope_def in_org_scope_def network_of_def renamed_def
          set_name_def rename_desktop_def no_params_def example_defs)
  note local_run = Update_global_rename[OF name, of session None home_local "''n1''" "''aaaaaaaaaa''" False]
  note global_run = Update_global_rename[OF name, of session None home "''n1''" "''aaaaaaaaaa''" False]
  note org_run = Update_global_rename[OF name, of session "Some ''acme''" office "''o1''" "''aaaaaaaaaa''" False]
  from local_run off others_local
  have a: "filter (\<lambda>r. m_nwid r \<noteq> ''n1'') (members (snd (Update session ''n1'' ''aaaaaaaaaa'' False None rename_desktop home_local)))
       = [device ''aaaaaaaaaa'' ''n2'' True False False ''laptop'']"
    and b: "filter (elsewhere ''n1'') (new_events home_local (snd (Update session ''n1'' ''aaaaaaaaaa'' False None rename_desktop home_local))) = []"
    by simp_all
  from global_run on allowed targets reply others
  have c: "filter (\<lambda>r. m_nwid r \<noteq> ''n1'') (members (snd (Update session ''n1'' ''aaaaaaaaaa'' False None rename_desktop home)))
       = [device ''aaaaaaaaaa'' ''n2'' True False False ''desktop'']"
    and d: "filter (elsewhere ''n1'') (new_events home (snd (Update session ''n1'' ''aaaaaaaaaa'' False None rename_desktop home)))
       = [CtrlUpdate ''n2'' ''aaaaaaaaaa'' False (Payload rename_desktop), DbMember ''n2'' ''aaaaaaaaaa'']"
    by (simp_all add: fan_out_def)
  from org_run on_org allowed_org targets_org reply_org others_org
  have e: "filter (\<lambda>r. m_nwid r \<noteq> ''o1'') (members (snd (Update session ''o1'' ''aaaaaaaaaa'' False (Some ''acme'') rename_desktop office)))
       = [device ''aaaaaaaaaa'' ''o2'' True False False ''desktop'']"
    and f: "filter (elsewhere ''o1'') (new_events office (snd (Update session ''o1'' ''aaaaaaaaaa'' False (Some ''acme'') rename_desktop office)))
       = [CtrlUpdate ''o2'' ''aaaaaaaaaa'' False (Payload rename_desktop), DbMember ''o2'' ''aaaaaaaaaa'']"
    by (simp_all add: fan_out_def)
  from name off a b on allowed targets reply c d on_org allowed_org targets_org e f show ?thesis by blast
qed

text \<open>
  C6 as stated fails: a rename to the empty name is written to the edited network only,
  although the user renames globally and \<open>n2\<close> holds the same member.
\<close>

theorem Update_empty_name_stays_local:
  "user_renames_globally session home
   \<and> other_networks (in_personal_scope session home) ''aaaaaaaaaa'' ''n1'' home = [''n2'']
   \<and> fst (Update session ''n1'' ''aaaaaaaaaa'' False None (no_params\<lparr>up_name := Some ''''\<rparr>) home)
     = Inr (reported ''aaaaaaaaaa'')
   \<and> map m_name (members (snd (Update session ''n1'' ''aaaaaaaaaa'' False None (no_params\<lparr>up_name := Some ''''\<rparr>) home)))
     = [Some '''', Some ''phone'', Some ''tablet'', Some ''laptop'']
   \<and> trace (snd (Update session ''n1'' ''aaaaaaaaaa'' False None (no_params\<lparr>up_name := Some ''''\<rparr>) home))
     = [CtrlUpdate ''n1'' ''aaaaaaaaaa'' False (Payload (no_params\<lparr>up_name := Some ''''\<rparr>)),
        DbMember ''n1'' ''aaaaaaaaaa'', Webhook MEMBER_CONFIG_CHANGED]"
  by (simp add: update_handler_defs run_defs example_defs)

section \<open>\<open>Update\<close>: validation of \<open>ipAssignments\<close>\<close>

text \<open>
  Where nothing is fanned out (no name to propagate, or global naming off), an invalid
  address is rejected with no member row written and no controller call made.
\<close>

lemma Update_invalid_ip_without_fan_out:
  assumes invalid: "invalidIPs env ups \<noteq> []"
    and local: "\<not> truthy_str (up_name ups) \<or> \<not> renames_globally env org w"
    and allowed: "org_allowed env org"
  shows "fst (Update env nwid mid central org ups w) = Inl (TRPCError BAD_REQUEST)
       \<and> members (snd (Update env nwid mid central org ups w)) = members w
       \<and> trace (snd (Update env nwid mid central org ups w)) = trace w"
proof -
  let ?w0 = "logged env (ActUpdated mid nwid ups) org w"
  obtain res w1 where rg: "rename_globally env nwid mid org ups ?w0 = (res, w1)"
    by (cases "rename_globally env nwid mid org ups ?w0")
  have "res = Inr () \<and> members w1 = members w \<and> trace w1 = trace w"
  proof (cases "truthy_str (up_name ups)")
    case False
    with rg show ?thesis by (auto simp: rename_globally_def ret_def)
  next
    case True
    with local have "\<not> renames_globally env org ?w0" by simp
    from rename_globally_off[OF this, of nwid mid ups] rg show ?thesis by simp
  qed
  with rg invalid show ?thesis
    by (simp add: Update_allowed[OF allowed] update_edited_network_def throw_def)
qed

text \<open>
  C8 on the code. With global naming on, an \<open>Update\<close> that carries a name and an invalid
  address is rejected with \<open>BAD_REQUEST\<close> only after the fan-out: by then the controller
  has been handed the unvalidated parameters for \<open>n2\<close> and the row of \<open>n2\<close> is renamed.
\<close>

theorem Update_renames_before_validation:
  "fst (Update session ''n1'' ''aaaaaaaaaa'' False None
          (no_params\<lparr>up_name := Some ''desktop'', up_ipAssignments := Some [''not-an-ip'']\<rparr>) home)
     = Inl (TRPCError BAD_REQUEST)
   \<and> members (snd (Update session ''n1'' ''aaaaaaaaaa'' False None
          (no_params\<lparr>up_name := Some ''desktop'', up_ipAssignments := Some [''not-an-ip'']\<rparr>) home))
     = [device ''aaaaaaaaaa'' ''n1'' True False False ''laptop'',
        device ''bbbbbbbbbb'' ''n1'' False True False ''phone'',
        device ''dddddddddd'' ''n1'' False True True ''tablet'',
        device ''aaaaaaaaaa'' ''n2'' True False False ''desktop'']
   \<and> trace (snd (Update session ''n1'' ''aaaaaaaaaa'' False None
          (no_params\<lparr>up_name := Some ''desktop'', up_ipAssignments := Some [''not-an-ip'']\<rparr>) home))
     = [CtrlUpdate ''n2'' ''aaaaaaaaaa'' False
          (Payload (no_params\<lparr>up_name := Some ''desktop'', up_ipAssignments := Some [''not-an-ip'']\<rparr>)),
        DbMember ''n2'' ''aaaaaaaaaa'']"
  by (simp add: update_handler_defs run_defs example_defs)

section \<open>Notifications\<close>

lemma notified_after_True [simp]: "notified_after P True es"
  by (induction es) auto

text \<open>Independence of the admin e-mail's outcome.\<close>

lemma env_notify_simps [simp]:
  "member_update (env\<lparr>notify_ok := f\<rparr>) = member_update env"
  "member_delete (env\<lparr>notify_ok := f\<rparr>) = member_delete env"
  "sendWebhook (env\<lparr>notify_ok := f\<rparr>) = sendWebhook env"
  "checkUserOrganizationRole (env\<lparr>notify_ok := f\<rparr>) = checkUserOrganizationRole env"
  "activityLog_create (env\<lparr>notify_ok := f\<rparr>) = activityLog_create env"
  "notify_admins (env\<lparr>notify_ok := f\<rparr>) = notify_admins env"
  "in_personal_scope (env\<lparr>notify_ok := f\<rparr>) = in_personal_scope env"
  "user_renames_globally (env\<lparr>notify_ok := f\<rparr>) = user_renames_globally env"
  "user_adds_id_as_name (env\<lparr>notify_ok := f\<rparr>) = user_adds_id_as_name env"
  "invalidIPs (env\<lparr>notify_ok := f\<rparr>) = invalidIPs env"
  by (auto simp: fun_eq_iff member_update_def member_delete_def sendWebhook_def
        checkUserOrganizationRole_def activityLog_create_def notify_admins_run in_personal_scope_def
        user_renames_globally_def user_adds_id_as_name_def invalidIPs_def
        cong: option.case_cong)

lemma rename_in_notify [simp]:
  "rename_in (env\<lparr>notify_ok := f\<rparr>) mid ups g ns = rename_in env mid ups g ns"
  by (induction ns) simp_all

lemma existing_name_notify [simp]:
  "existing_name (env\<lparr>notify_ok := f\<rparr>) = existing_name env"
  by (simp add: fun_eq_iff existing_name_def cong: option.case_cong if_cong)

lemma Update_notify [simp]:
  "Update (env\<lparr>notify_ok := f\<rparr>) = Update env"
  by (simp add: fun_eq_iff Update_def update_edited_network_def rename_globally_def
        cong: option.case_cong if_cong)

lemma create_notify: "create (env\<lparr>notify_ok := f\<rparr>) = create env"
  by (simp add: fun_eq_iff create_def readd_name_def new_name_def cong: option.case_cong if_cong)

lemma stash_notify: "stash (env\<lparr>notify_ok := f\<rparr>) = stash env"
  by (simp add: fun_eq_iff stash_def cong: option.case_cong if_cong)

lemma delete_notify: "delete (env\<lparr>notify_ok := f\<rparr>) = delete env"
  by (simp add: fun_eq_iff delete_def cong: option.case_cong if_cong)


text \<open>A failing webhook undoes nothing.\<close>

lemma env_webhook_simps [simp]:
  "member_update (env\<lparr>webhook_ok := g\<rparr>) = member_update env"
  "member_delete (env\<lparr>webhook_ok := g\<rparr>) = member_delete env"
  "checkUserOrganizationRole (env\<lparr>webhook_ok := g\<rparr>) = checkUserOrganizationRole env"
  "activityLog_create (env\<lparr>webhook_ok := g\<rparr>) = activityLog_create env"
  "in_personal_scope (env\<lparr>webhook_ok := g\<rparr>) = in_personal_scope env"
  "user_renames_globally (env\<lparr>webhook_ok := g\<rparr>) = user_renames_globally env"
  "invalidIPs (env\<lparr>webhook_ok := g\<rparr>) = invalidIPs env"
  "org_allowed (env\<lparr>webhook_ok := g\<rparr>) = org_allowed env"
  "logged (env\<lparr>webhook_ok := g\<rparr>) = logged env"
  by (auto simp: fun_eq_iff member_update_def member_delete_def
        checkUserOrganizationRole_def activityLog_create_def in_personal_scope_def
        user_renames_globally_def invalidIPs_def org_allowed_def logged_def
        cong: option.case_cong)

lemma rename_in_webhook [simp]:
  "rename_in (env\<lparr>webhook_ok := g\<rparr>) mid ups f ns = rename_in env mid ups f ns"
  by (induction ns) simp_all

lemma rename_globally_webhook [simp]:
  "rename_globally (env\<lparr>webhook_ok := g\<rparr>) = rename_globally env"
  by (simp add: fun_eq_iff rename_globally_def cong: option.case_cong if_cong)

lemma update_edited_network_webhook:
  "members (snd (update_edited_network (env\<lparr>webhook_ok := g\<rparr>) nwid mid central org ups w))
     = members (snd (update_edited_network env nwid mid central org ups w))"
  by (auto simp: update_edited_network_def update_database_def handler_defs
        member_update_def update_member_def notify_admins_run sendWebhook_def
        find_member_def emit_def updateMany_def
        split: option.splits if_splits)

lemma Update_webhook:
  "members (snd (Update (env\<lparr>webhook_ok := g\<rparr>) nwid mid central org ups w))
     = members (snd (Update env nwid mid central org ups w))"
proof (cases "org_allowed env org")
  case False
  then show ?thesis by (simp add: Update_refused)
next
  case True
  then have "org_allowed (env\<lparr>webhook_ok := g\<rparr>) org" by simp
  then show ?thesis
    using True
    by (simp add: Update_allowed update_edited_network_webhook split: prod.splits sum.splits)
qed

lemma stash_webhook:
  "members (snd (stash (env\<lparr>webhook_ok := g\<rparr>) org nwid i w)) = members (snd (stash env org nwid i w))"
proof (cases "org_allowed env org")
  case False
  then show ?thesis by (simp add: stash_refused)
next
  case True
  then have "org_allowed (env\<lparr>webhook_ok := g\<rparr>) org" by simp
  from stash_members_any[OF this] stash_members_any[OF True] show ?thesis by simp
qed

lemma delete_webhook:
  "members (snd (delete (env\<lparr>webhook_ok := g\<rparr>) org central nwid i w))
     = members (snd (delete env org central nwid i w))"
proof (cases "org_allowed env org")
  case False
  then show ?thesis by (simp add: delete_def await_def when_org_refused)
next
  case True
  then show ?thesis
    by (auto simp: delete_def handler_defs when_org_allowed activityLog_create_def Let_def
        member_delete_def delete_row_def update_member_def notify_admins_run sendWebhook_def
        find_member_def emit_def
        split: option.splits)
qed


text \<open>Notifications come after the run's first controller call or member write.\<close>

lemma change_first_simps [simp]:
  "change_first []"
  "change_first (e # es) = is_change e"
  by (simp_all add: change_first_def)

lemma change_first_append: "change_first xs \<Longrightarrow> change_first ys \<Longrightarrow> change_first (xs @ ys)"
  by (cases xs) simp_all

lemma change_is_no_notification: "is_change e \<Longrightarrow> \<not> is_notification e \<and> \<not> is_admin_mail e"
  by (cases e) simp_all

lemma change_first_notified:
  "change_first es \<Longrightarrow> notified_after is_notification False es \<and> notified_after is_admin_mail False es"
  by (cases es) (auto dest: change_is_no_notification)

lemma rename_in_trace:
  "\<exists>evs. trace (snd (rename_in env mid ups f ns w)) = trace w @ evs \<and> change_first evs"
proof (induction ns arbitrary: w)
  case Nil
  then show ?case by (simp add: ret_def)
next
  case (Cons n ns)
  let ?w0 = "emit (CtrlUpdate n mid False (Payload ups)) w"
  let ?w1 = "emit (DbMember n mid) (updateMany (\<lambda>r. is_member mid n r \<and> m_deleted r = Some False) f ?w0)"
  show ?case
  proof (cases "member_update_reply env n mid False (Payload ups)")
    case None
    then have "snd (rename_in env mid ups f (n # ns) w) = ?w0"
      by (simp add: await_def member_update_def)
    then show ?thesis by simp
  next
    case (Some m)
    then have step: "rename_in env mid ups f (n # ns) w = rename_in env mid ups f ns ?w1"
      by (simp add: await_def member_update_def)
    from Cons.IH[of ?w1] obtain evs where "trace (snd (rename_in env mid ups f ns ?w1)) = trace ?w1 @ evs"
      by blast
    then show ?thesis
      unfolding step by simp
  qed
qed

lemma rename_globally_cases:
  "rename_globally env nwid mid org ups w = (Inr (), w)
   \<or> (\<exists>f ns. rename_globally env nwid mid org ups w = rename_in env mid ups f ns w)
   \<or> (\<exists>x. rename_globally env nwid mid org ups w = (Inr (), upsert_organizationSettings x w))
   \<or> (\<exists>f x ns. rename_globally env nwid mid org ups w
          = rename_in env mid ups f ns (upsert_organizationSettings x w))"
proof (cases "truthy_str (up_name ups)")
  case False
  then show ?thesis by (simp add: rename_globally_def ret_def)
next
  case name: True
  show ?thesis
  proof (cases "user_renames_globally env w \<and> \<not> truthy_str org")
    case True
    with name have "rename_globally env nwid mid org ups w
        = rename_in env mid ups (set_name_description ups)
            (other_networks (in_personal_scope env w) mid nwid w) w"
      by (simp add: rename_globally_def)
    then show ?thesis by blast
  next
    case False
    show ?thesis
    proof (cases "truthy_str org")
      case False
      with name \<open>\<not> (user_renames_globally env w \<and> \<not> truthy_str org)\<close>
      have "rename_globally env nwid mid org ups w = (Inr (), w)"
        by (auto simp: rename_globally_def ret_def truthy_str_def split: option.splits)
      then show ?thesis by blast
    next
      case True
      then obtain x where x: "org = Some x" "x \<noteq> []"
        by (auto simp: truthy_str_def split: option.splits)
      show ?thesis
      proof (cases "org_renames_globally x w")
        case True
        with name x have "rename_globally env nwid mid org ups w
          = rename_in env mid ups (set_name ups) (other_networks (in_org_scope x w) mid nwid w)
              (upsert_organizationSettings x w)"
          by (simp add: rename_globally_def Let_def truthy_str_def)
        then show ?thesis by blast
      next
        case False
        with name x have "rename_globally env nwid mid org ups w = (Inr (), upsert_organizationSettings x w)"
          by (simp add: rename_globally_def Let_def truthy_str_def ret_def)
        then show ?thesis by blast
      qed
    qed
  qed
qed

lemma rename_globally_trace:
  "\<exists>evs. trace (snd (rename_globally env nwid mid org ups w)) = trace w @ evs \<and> change_first evs"
proof -
  have quiet: "\<exists>evs. trace w' = trace w @ evs \<and> change_first evs" if "trace w' = trace w" for w'
    using that by (intro exI[of _ "[]"]) simp
  from rename_globally_cases[of env nwid mid org ups w] show ?thesis
  proof (elim disjE exE)
    assume "rename_globally env nwid mid org ups w = (Inr (), w)"
    then show ?thesis by (simp add: quiet)
  next
    fix f ns assume "rename_globally env nwid mid org ups w = rename_in env mid ups f ns w"
    then show ?thesis by (simp add: rename_in_trace)
  next
    fix x assume "rename_globally env nwid mid org ups w = (Inr (), upsert_organizationSettings x w)"
    then show ?thesis by (simp add: quiet)
  next
    fix f x ns
    assume run: "rename_globally env nwid mid org ups w
          = rename_in env mid ups f ns (upsert_organizationSettings x w)"
    from rename_in_trace[of env mid ups f ns "upsert_organizationSettings x w"]
    show ?thesis unfolding run by simp
  qed
qed

lemma update_edited_network_trace:
  "\<exists>evs. trace (snd (update_edited_network env nwid mid central org ups w)) = trace w @ evs
         \<and> change_first evs"
proof (cases "invalidIPs env ups \<noteq> []")
  case True
  then show ?thesis
    by (intro exI[of _ "[]"]) (simp add: update_edited_network_def throw_def)
next
  case False
  let ?w1 = "emit (CtrlUpdate nwid mid central (if central then Config ups else Payload ups)) w"
  from update_edited_network_local[of nwid env mid central org ups w] obtain evs where
    evs: "trace (snd (update_edited_network env nwid mid central org ups w)) = trace w @ evs"
    by blast
  have "\<exists>rest. trace (snd (update_edited_network env nwid mid central org ups w))
          = trace w @ CtrlUpdate nwid mid central (if central then Config ups else Payload ups) # rest"
    using False
    by (auto simp: update_edited_network_def update_database_def handler_defs
        member_update_def update_member_def notify_admins_run sendWebhook_def
        find_member_def emit_def updateMany_def
        split: option.splits if_splits)
  then show ?thesis by auto
qed

lemma Update_trace:
  "\<exists>evs. trace (snd (Update env nwid mid central org ups w)) = trace w @ evs \<and> change_first evs"
proof (cases "org_allowed env org")
  case False
  then show ?thesis by (intro exI[of _ "[]"]) (simp add: Update_refused)
next
  case True
  let ?w0 = "logged env (ActUpdated mid nwid ups) org w"
  obtain res w1 where rg: "rename_globally env nwid mid org ups ?w0 = (res, w1)"
    by (cases "rename_globally env nwid mid org ups ?w0")
  from rename_globally_trace[of env nwid mid org ups ?w0] rg obtain evs1 where
    t1: "trace w1 = trace w @ evs1" "change_first evs1"
    by auto
  show ?thesis
  proof (cases res)
    case (Inl e)
    with rg t1 show ?thesis by (simp add: Update_allowed[OF True])
  next
    case (Inr u)
    from update_edited_network_trace[of env nwid mid central org ups w1] obtain evs2 where
      t2: "trace (snd (update_edited_network env nwid mid central org ups w1)) = trace w1 @ evs2"
        "change_first evs2"
      by blast
    from rg Inr have "snd (Update env nwid mid central org ups w)
        = snd (update_edited_network env nwid mid central org ups w1)"
      by (simp add: Update_allowed[OF True])
    with t1 t2 show ?thesis
      by (intro exI[of _ "evs1 @ evs2"]) (simp add: change_first_append)
  qed
qed

lemma stash_trace:
  "\<exists>evs. trace (snd (stash env org nwid i w)) = trace w @ evs \<and> change_first evs"
proof (cases "org_allowed env org")
  case False
  then show ?thesis by (intro exI[of _ "[]"]) (simp add: stash_refused)
next
  case True
  let ?w0 = "w\<lparr>activityLog := activityLog w @
        [(ActStashed i nwid, session_user env, if truthy_str org then org else None)]\<rparr>"
  obtain res w1 where upd: "Update env nwid i False org deauthorize ?w0 = (res, w1)"
    by (cases "Update env nwid i False org deauthorize ?w0")
  from Update_deauthorize(3)[OF True, of nwid i ?w0] upd obtain rest where
    t1: "trace w1 = trace w @ CtrlUpdate nwid i False (Payload deauthorize) # rest"
    by auto
  have "\<exists>more. trace (snd (stash env org nwid i w)) = trace w1 @ more"
    using upd
    by (auto simp: stash_def handler_defs when_org_allowed[OF True] activityLog_create_def
          mark_deleted_def sendWebhook_def emit_def updateMany_def split: sum.splits option.splits)
  with t1 show ?thesis by auto
qed

lemma delete_trace:
  "\<exists>evs. trace (snd (delete env org central nwid i w)) = trace w @ evs \<and> change_first evs"
proof (cases "org_allowed env org")
  case False
  then show ?thesis by (intro exI[of _ "[]"]) (simp add: delete_def await_def when_org_refused)
next
  case True
  show ?thesis
    by (auto simp: delete_def handler_defs when_org_allowed[OF True] activityLog_create_def Let_def
        member_delete_def delete_row_def update_member_def notify_admins_run sendWebhook_def
        find_member_def emit_def updateMany_def
        split: option.splits)
qed

lemma create_trace:
  "\<exists>evs. trace (snd (create env org i nwid central w)) = trace w @ evs
         \<and> notified_after is_admin_mail False evs"
proof (cases "org_allowed env org")
  case False
  then show ?thesis
    by (intro exI[of _ "[]"]) (simp add: create_def await_def throw_def when_org_refused)
next
  case True
  show ?thesis
    by (auto simp: create_def handler_defs when_org_allowed[OF True] activityLog_create_def
        member_update_def update_member_def create_row_def notify_admins_run sendWebhook_def
        find_member_def network_of_def emit_def updateMany_def
        split: option.splits)
qed


lemma update_edited_network_webhook_fails:
  "\<not> webhook_ok env MEMBER_CONFIG_CHANGED \<Longrightarrow>
     fst (update_edited_network env nwid mid central org ups w) \<noteq> Inr r"
  by (auto simp: update_edited_network_def update_database_def handler_defs
        member_update_def update_member_def sendWebhook_def find_member_def
        split: option.splits if_splits)

lemma Update_webhook_fails:
  assumes "\<not> webhook_ok env MEMBER_CONFIG_CHANGED"
  shows "fst (Update env nwid mid central org ups w) \<noteq> Inr r"
proof (cases "org_allowed env org")
  case False
  then show ?thesis by (simp add: Update_refused)
next
  case True
  show ?thesis
    using update_edited_network_webhook_fails[OF assms]
    by (auto simp: Update_allowed[OF True] split: prod.splits sum.splits)
qed

lemma stash_webhook_fails:
  assumes "\<not> webhook_ok env MEMBER_CONFIG_CHANGED"
  shows "fst (stash env org nwid i w) \<noteq> Inr r"
proof (cases "org_allowed env org")
  case False
  then show ?thesis by (simp add: stash_refused)
next
  case True
  show ?thesis
    using assms
    by (auto simp: stash_def handler_defs when_org_allowed[OF True] activityLog_create_def
          mark_deleted_def sendWebhook_def split: sum.splits option.splits prod.splits)
qed

lemma new_events_append: "trace w' = trace w @ evs \<Longrightarrow> new_events w w' = evs"
  by (simp add: new_events_def)

text \<open>
  C7, as amended. For \<open>create\<close>, \<open>Update\<close>, \<open>stash\<close> and \<open>delete\<close>: whether an admin
  e-mail goes through or fails makes no difference to the run, result and state are the
  same; an admin e-mail is attempted only after a controller call or member write of the
  run, and in \<open>Update\<close>, \<open>stash\<close> and \<open>delete\<close> so is a webhook. A failing webhook undoes
  nothing in \<open>Update\<close>, \<open>stash\<close> and \<open>delete\<close>: the member table ends as in the run where
  it goes through. It does fail the operation: \<open>Update\<close> and \<open>stash\<close> never answer when
  their webhook fails.
\<close>

theorem notifications_isolated_after_changes:
  "create (env\<lparr>notify_ok := f\<rparr>) org i nwid central w = create env org i nwid central w
   \<and> Update (env\<lparr>notify_ok := f\<rparr>) nwid i central org ups w = Update env nwid i central org ups w
   \<and> stash (env\<lparr>notify_ok := f\<rparr>) org nwid i w = stash env org nwid i w
   \<and> delete (env\<lparr>notify_ok := f\<rparr>) org central nwid i w = delete env org central nwid i w
   \<and> notified_after is_admin_mail False (new_events w (snd (create env org i nwid central w)))
   \<and> notified_after is_notification False (new_events w (snd (Update env nwid i central org ups w)))
   \<and> notified_after is_notification False (new_events w (snd (stash env org nwid i w)))
   \<and> notified_after is_notification False (new_events w (snd (delete env org central nwid i w)))
   \<and> members (snd (Update (env\<lparr>webhook_ok := g\<rparr>) nwid i central org ups w))
       = members (snd (Update env nwid i central org ups w))
   \<and> members (snd (stash (env\<lparr>webhook_ok := g\<rparr>) org nwid i w)) = members (snd (stash env org nwid i w))
   \<and> members (snd (delete (env\<lparr>webhook_ok := g\<rparr>) org central nwid i w))
       = members (snd (delete env org central nwid i w))
   \<and> (\<not> webhook_ok env MEMBER_CONFIG_CHANGED \<longrightarrow>
         (\<forall>r. fst (Update env nwid i central org ups w) \<noteq> Inr r)
       \<and> (\<forall>r. fst (stash env org nwid i w) \<noteq> Inr r))"
proof -
  have isolated: "create (env\<lparr>notify_ok := f\<rparr>) org i nwid central w = create env org i nwid central w"
    "Update (env\<lparr>notify_ok := f\<rparr>) nwid i central org ups w = Update env nwid i central org ups w"
    "stash (env\<lparr>notify_ok := f\<rparr>) org nwid i w = stash env org nwid i w"
    "delete (env\<lparr>notify_ok := f\<rparr>) org central nwid i w = delete env org central nwid i w"
    by (simp_all add: create_notify stash_notify delete_notify)
  have ordered: "notified_after is_admin_mail False (new_events w (snd (create env org i nwid central w)))"
    "notified_after is_notification False (new_events w (snd (Update env nwid i central org ups w)))"
    "notified_after is_notification False (new_events w (snd (stash env org nwid i w)))"
    "notified_after is_notification False (new_events w (snd (delete env org central nwid i w)))"
    using create_trace[of env org i nwid central w] Update_trace[of env nwid i central org ups w]
      stash_trace[of env org nwid i w] delete_trace[of env org central nwid i w]
    by (auto simp: new_events_append change_first_notified)
  have kept: "members (snd (Update (env\<lparr>webhook_ok := g\<rparr>) nwid i central org ups w))
       = members (snd (Update env nwid i central org ups w))"
    "members (snd (stash (env\<lparr>webhook_ok := g\<rparr>) org nwid i w)) = members (snd (stash env org nwid i w))"
    "members (snd (delete (env\<lparr>webhook_ok := g\<rparr>) org central nwid i w))
       = members (snd (delete env org central nwid i w))"
    by (rule Update_webhook stash_webhook delete_webhook)+
  have raised: "\<not> webhook_ok env MEMBER_CONFIG_CHANGED \<longrightarrow>
         (\<forall>r. fst (Update env nwid i central org ups w) \<noteq> Inr r)
       \<and> (\<forall>r. fst (stash env org nwid i w) \<noteq> Inr r)"
    using Update_webhook_fails stash_webhook_fails by blast
  from isolated ordered kept raised show ?thesis by blast
qed

theorem notifications_witness:
  "delete no_mail (Some ''acme'') False ''n1'' ''aaaaaaaaaa'' home
     = delete session (Some ''acme'') False ''n1'' ''aaaaaaaaaa'' home
   \<and> new_events home (snd (delete no_mail (Some ''acme'') False ''n1'' ''aaaaaaaaaa'' home))
       = [CtrlDelete ''n1'' ''aaaaaaaaaa'' False, DbMember ''n1'' ''aaaaaaaaaa'',
          AdminNotification NODE_PERMANENTLY_DELETED, Webhook MEMBER_DELETED]
   \<and> notified_after is_notification False
        (new_events home (snd (delete no_mail (Some ''acme'') False ''n1'' ''aaaaaaaaaa'' home)))
   \<and> \<not> webhook_ok no_webhooks MEMBER_CONFIG_CHANGED
   \<and> fst (Update no_webhooks ''n1'' ''aaaaaaaaaa'' False None rename_desktop home) = Inl (Thrown ''notification'')
   \<and> fst (Update no_webhooks ''n1'' ''aaaaaaaaaa'' False None rename_desktop home) \<noteq> Inr (reported ''aaaaaaaaaa'')
   \<and> fst (stash no_webhooks None ''n1'' ''aaaaaaaaaa'' home) \<noteq> Inr (Some (reported ''aaaaaaaaaa''))
   \<and> members (snd (Update no_webhooks ''n1'' ''aaaaaaaaaa'' False None rename_desktop home))
       = members (snd (Update session ''n1'' ''aaaaaaaaaa'' False None rename_desktop home))
   \<and> map m_name (members (snd (Update no_webhooks ''n1'' ''aaaaaaaaaa'' False None rename_desktop home)))
       = [Some ''desktop'', Some ''phone'', Some ''tablet'', Some ''desktop'']"
proof -
  note mail = notifications_isolated_after_changes[where env=session and f="\<lambda>ev. False"
      and org="Some ''acme''" and i="''aaaaaaaaaa''" and nwid="''n1''" and central=False and w=home]
  note hook = notifications_isolated_after_changes[where env=session and g="\<lambda>h. False"
      and org=None and i="''aaaaaaaaaa''" and nwid="''n1''" and central=False and w=home
      and ups=rename_desktop]
  note failing = notifications_isolated_after_changes[where env=no_webhooks
      and org=None and i="''aaaaaaaaaa''" and nwid="''n1''" and central=False and w=home
      and ups=rename_desktop]
  from mail have a: "delete no_mail (Some ''acme'') False ''n1'' ''aaaaaaaaaa'' home
     = delete session (Some ''acme'') False ''n1'' ''aaaaaaaaaa'' home"
    unfolding no_mail_def by blast
  have b: "new_events home (snd (delete session (Some ''acme'') False ''n1'' ''aaaaaaaaaa'' home))
       = [CtrlDelete ''n1'' ''aaaaaaaaaa'' False, DbMember ''n1'' ''aaaaaaaaaa'',
          AdminNotification NODE_PERMANENTLY_DELETED, Webhook MEMBER_DELETED]"
    by (simp add: delete_def run_defs new_events_def example_defs)
  from mail have b': "notified_after is_notification False
        (new_events home (snd (delete session (Some ''acme'') False ''n1'' ''aaaaaaaaaa'' home)))"
    by blast
  have c: "\<not> webhook_ok no_webhooks MEMBER_CONFIG_CHANGED"
    by (simp add: no_webhooks_def session_def)
  have d: "fst (Update no_webhooks ''n1'' ''aaaaaaaaaa'' False None rename_desktop home) = Inl (Thrown ''notification'')"
    by (simp add: update_handler_defs run_defs rename_desktop_def no_webhooks_def example_defs)
  from failing c
  have d': "fst (Update no_webhooks ''n1'' ''aaaaaaaaaa'' False None rename_desktop home) \<noteq> Inr (reported ''aaaaaaaaaa'')"
    and d'': "fst (stash no_webhooks None ''n1'' ''aaaaaaaaaa'' home) \<noteq> Inr (Some (reported ''aaaaaaaaaa''))"
    by blast+
  from hook have e: "members (snd (Update no_webhooks ''n1'' ''aaaaaaaaaa'' False None rename_desktop home))
       = members (snd (Update session ''n1'' ''aaaaaaaaaa'' False None rename_desktop home))"
    unfolding no_webhooks_def by blast
  have f: "map m_name (members (snd (Update session ''n1'' ''aaaaaaaaaa'' False None rename_desktop home)))
       = [Some ''desktop'', Some ''phone'', Some ''tablet'', Some ''desktop'']"
    by (simp add: update_handler_defs run_defs rename_desktop_def example_defs)
  from a b b' c d d' d'' e f show ?thesis by simp
qed

text \<open>
  C7 as stated fails: for a new member \<open>create\<close> sends the webhook before it inserts the
  row, and when the webhook fails the operation fails and the row is never inserted.
\<close>

theorem create_webhook_before_insert:
  "fst (create no_webhooks None ''eeeeeeeeee'' ''n1'' False home) = Inl (Thrown ''notification'')
   \<and> members (snd (create no_webhooks None ''eeeeeeeeee'' ''n1'' False home)) = members home
   \<and> fst (create session None ''eeeeeeeeee'' ''n1'' False home) = Inr NoResult
   \<and> members (snd (create session None ''eeeeeeeeee'' ''n1'' False home))
       = members home @ [(device ''eeeeeeeeee'' ''n1'' False False False [])\<lparr>m_name := None\<rparr>]
   \<and> new_events home (snd (create session None ''eeeeeeeeee'' ''n1'' False home))
       = [Webhook NETWORK_JOIN, DbMember ''n1'' ''eeeeeeeeee'']"
  by (simp add: create_def run_defs new_name_def user_renames_globally_def user_adds_id_as_name_def
        existing_name_def in_personal_scope_def isValidZeroTierNetworkId_def is_hex_char_def
        new_events_def no_webhooks_def example_defs)

section \<open>How a row comes to be permanently deleted and not stashed\<close>

text \<open>
  The tablet's row of \<open>home\<close> is what \<open>stash\<close> and then \<open>delete\<close> leave of an active
  row; \<open>UpdateDatabaseOnly\<close> with \<open>deleted: false\<close> then gives the row of \<open>revived\<close>,
  which \<open>getNetworkById\<close> lists and \<open>getUserNetworks\<close> counts.
\<close>

lemma tablet_history:
  "members (snd (delete session None False ''n1'' ''dddddddddd''
      (snd (stash session None ''n1'' ''dddddddddd''
         (home\<lparr>members := [device ''dddddddddd'' ''n1'' True False False ''tablet'']\<rparr>)))))
   = [device ''dddddddddd'' ''n1'' False True True ''tablet'']"
  by (simp add: delete_def stash_def mark_deleted_def update_handler_defs deauthorize_def run_defs
        example_defs)

lemma UpdateDatabaseOnly_revives:
  "fst (UpdateDatabaseOnly session ''n1'' ''dddddddddd'' None (Some False) None home)
     = Inr (device ''dddddddddd'' ''n1'' False False True ''tablet'')
   \<and> members (snd (UpdateDatabaseOnly session ''n1'' ''dddddddddd'' None (Some False) None home))
     = members revived"
  by (simp add: UpdateDatabaseOnly_def run_defs example_defs)

end
